theory Spec2Isabelle
  imports Complex_Main
begin

section \<open>Python values shared by the embedding\<close>

text \<open>
  Every \<^verbatim>\<open>raise\<close> of the Python source, and every exception the interpreter raises
  on its behalf (an unbound name, a missing attribute, a failed \<^verbatim>\<open>assert\<close>, an index
  out of range), is a value of \<open>error\<close>. A function that may raise returns
  \<open>error + 'a\<close>, with \<open>Inl\<close> the exception.
\<close>

datatype error =
    NameError string
  | AttributeError string
  | AssertionError
  | IndexError
  | NotImplementedError string
  | ValueError string
  | InvalidArgumentError string

text \<open>Sequencing of two statements, the second of which runs only when the first returned.\<close>

definition and_then :: "error + 'a \<Rightarrow> ('a \<Rightarrow> error + 'b) \<Rightarrow> error + 'b" where
  "and_then m f = (case m of Inl e \<Rightarrow> Inl e | Inr x \<Rightarrow> f x)"

text \<open>
  \<^verbatim>\<open>xs[i]\<close> on a Python list: an index below zero counts from the end, and an index
  outside \<^verbatim>\<open>[-len(xs), len(xs))\<close> raises IndexError.
\<close>

definition list_getitem :: "'a list \<Rightarrow> int \<Rightarrow> error + 'a" where
  "list_getitem xs i =
     (if 0 \<le> i \<and> i < int (length xs) then Inr (xs ! nat i)
      else if i < 0 \<and> - int (length xs) \<le> i then Inr (xs ! nat (int (length xs) + i))
      else Inl IndexError)"

section \<open>The mode dynamics wrapper (\<^verbatim>\<open>modeopt/dynamics/multimodal.py\<close>)\<close>

text \<open>
  The mixture of experts (\<^verbatim>\<open>mogpe.MixtureOfSVGPExperts\<close>) is an external object; the wrapper
  reads its \<^verbatim>\<open>num_experts\<close>, its \<^verbatim>\<open>experts.experts_list\<close> and its \<^verbatim>\<open>gating_network\<close>.
  The expert and gating models stay abstract (\<open>'gp\<close>, \<open>'gate\<close>).
\<close>

record ('gp, 'gate) MixtureOfSVGPExperts =
  num_experts :: int
  experts_list :: "'gp list"
  gating_network :: 'gate

text \<open>\<^verbatim>\<open>SVGPDynamics(gp, nominal_dynamics=...)\<close>: the constructor of an external class.\<close>

datatype ('gp, 'nom) SVGPDynamics = SVGPDynamics 'gp "'nom option"

text \<open>
  An instance of \<^verbatim>\<open>ModeOptDynamics\<close> is its attribute dictionary: a field is \<open>None\<close> until
  an assignment \<^verbatim>\<open>self.<name> = ...\<close> has run, and reading it before that raises
  AttributeError. The fields are all the attributes the class reads or writes;
  \<open>attr_desied_mode\<close> and \<open>attr_desired_mode_dynamics\<close> are \<^verbatim>\<open>self._desied_mode\<close> and
  \<^verbatim>\<open>self._desired_mode_dynamics\<close>. No statement of the class assigns \<^verbatim>\<open>self.mosvgpe\<close> or
  \<^verbatim>\<open>self.dynamics_gp\<close>.
\<close>

record ('gp, 'gate, 'nom, 'opt) ModeOptDynamics =
  trainable_model :: "('gp, 'gate) MixtureOfSVGPExperts option"
  mosvgpe :: "('gp, 'gate) MixtureOfSVGPExperts option"
  dynamics_gp :: "'gp option"
  attr_desied_mode :: "int option"
  attr_desired_mode_dynamics :: "('gp, 'nom) SVGPDynamics option"
  desired_mode_dynamics :: "('gp, 'nom) SVGPDynamics option"
  gating_gp :: "'gate option"
  optimizer :: "'opt option"

definition new_instance :: "('gp, 'gate, 'nom, 'opt) ModeOptDynamics" where
  "new_instance =
     \<lparr>trainable_model = None, mosvgpe = None, dynamics_gp = None, attr_desied_mode = None,
      attr_desired_mode_dynamics = None, desired_mode_dynamics = None, gating_gp = None,
      optimizer = None\<rparr>"

definition getattr :: "string \<Rightarrow> 'a option \<Rightarrow> error + 'a" where
  "getattr name field = (case field of None \<Rightarrow> Inl (AttributeError name) | Some v \<Rightarrow> Inr v)"

text \<open>
  \<^verbatim>\<open>set_desired_mode\<close> mutates the instance, so it returns the instance as the call leaves it
  together with the outcome: an assignment that ran before an exception stays.
  \<^verbatim>\<open>
    assert desired_mode < self.mosvgpe.num_experts
    self._desied_mode = desired_mode
    dynamics_gp = self.mosvgpe.experts.experts_list[desired_mode]
    self._desired_mode_dynamics = SVGPDynamics(dynamics_gp)
  \<close>
\<close>

definition set_desired_mode ::
  "('gp, 'gate, 'nom, 'opt) ModeOptDynamics \<Rightarrow> int \<Rightarrow>
     (error + unit) \<times> ('gp, 'gate, 'nom, 'opt) ModeOptDynamics" where
  "set_desired_mode self desired_mode =
     (case getattr ''mosvgpe'' (mosvgpe self) of
        Inl e \<Rightarrow> (Inl e, self)
      | Inr m \<Rightarrow>
          if \<not> desired_mode < num_experts m then (Inl AssertionError, self)
          else
            let self1 = self\<lparr>attr_desied_mode := Some desired_mode\<rparr> in
            (case getattr ''mosvgpe'' (mosvgpe self1) of
               Inl e \<Rightarrow> (Inl e, self1)
             | Inr m1 \<Rightarrow>
                 (case list_getitem (experts_list m1) desired_mode of
                    Inl e \<Rightarrow> (Inl e, self1)
                  | Inr gp \<Rightarrow>
                      (Inr (), self1\<lparr>attr_desired_mode_dynamics := Some (SVGPDynamics gp None)\<rparr>))))"

text \<open>
  The constructor. An exception leaves the caller without an instance, so the result is
  the exception or the finished instance.
  \<^verbatim>\<open>
    self.trainable_model = mosvgpe
    self.set_desired_mode(desired_mode)
    self.desired_mode_dynamics = SVGPDynamics(self.dynamics_gp, nominal_dynamics=nominal_dynamics)
    self.gating_gp = self.trainable_model.gating_network
    self.optimizer = optimizer
  \<close>
  \<^verbatim>\<open>state_dim\<close>, \<^verbatim>\<open>control_dim\<close>, \<^verbatim>\<open>num_ckpts\<close> and \<^verbatim>\<open>log_dir\<close> are accepted and not used.
\<close>

definition ModeOptDynamics_init ::
  "('gp, 'gate) MixtureOfSVGPExperts \<Rightarrow> int \<Rightarrow> 'nom \<Rightarrow> int \<Rightarrow> int \<Rightarrow> 'opt \<Rightarrow> int \<Rightarrow> string \<Rightarrow>
     error + ('gp, 'gate, 'nom, 'opt) ModeOptDynamics" where
  "ModeOptDynamics_init mosvgpe_arg desired_mode nominal_dynamics state_dim control_dim
       optimizer_arg num_ckpts log_dir =
     (let self0 = new_instance\<lparr>trainable_model := Some mosvgpe_arg\<rparr> in
      case set_desired_mode self0 desired_mode of
        (Inl e, _) \<Rightarrow> Inl e
      | (Inr _, self1) \<Rightarrow>
          and_then (getattr ''dynamics_gp'' (dynamics_gp self1)) (\<lambda>gp.
            let self2 = self1\<lparr>desired_mode_dynamics := Some (SVGPDynamics gp (Some nominal_dynamics))\<rparr> in
            and_then (getattr ''trainable_model'' (trainable_model self2)) (\<lambda>tm.
              let self3 = self2\<lparr>gating_gp := Some (gating_network tm)\<rparr> in
              Inr (self3\<lparr>optimizer := Some optimizer_arg\<rparr>))))"


text \<open>
  For evaluation: a mixture of two experts, the instance that \<^verbatim>\<open>__init__\<close> calls
  \<^verbatim>\<open>set_desired_mode\<close> on when it is given that mixture, and an instance whose \<^verbatim>\<open>mosvgpe\<close>
  attribute holds the mixture, a state that no statement of the class brings about.
\<close>

definition example_mixture :: "(nat, unit) MixtureOfSVGPExperts" where
  "example_mixture = \<lparr>num_experts = 2, experts_list = [10, 11], gating_network = ()\<rparr>"


definition instance_with_mosvgpe :: "(nat, unit, unit, unit) ModeOptDynamics" where
  "instance_with_mosvgpe = new_instance\<lparr>mosvgpe := Some example_mixture\<rparr>"

text \<open>The property \<^verbatim>\<open>desired_mode\<close> returns \<^verbatim>\<open>self._desied_mode\<close>.\<close>

definition desired_mode :: "('gp, 'gate, 'nom, 'opt) ModeOptDynamics \<Rightarrow> error + int" where
  "desired_mode self = getattr ''_desied_mode'' (attr_desied_mode self)"


section \<open>Tensors\<close>

text \<open>
  A rank-2 tensor of shape \<open>[n, d]\<close> is its \<open>n\<close> rows together with the width \<open>d\<close>, which a
  tensor of no rows still has. Entries are real numbers: the floating-point rounding of the
  TensorFlow kernels is outside the embedding.
\<close>

datatype tensor2 = Tensor2 (ncols: nat) (rows: "real list list")

definition nrows :: "tensor2 \<Rightarrow> nat" where
  "nrows x = length (rows x)"

text \<open>\<^verbatim>\<open>tf.zeros((n, d))\<close>.\<close>

definition tf_zeros :: "nat \<Rightarrow> nat \<Rightarrow> tensor2" where
  "tf_zeros n d = Tensor2 d (replicate n (replicate d 0))"

text \<open>
  \<^verbatim>\<open>tf.concat([x, y], 0)\<close> stacks the rows and raises when the widths differ;
  \<^verbatim>\<open>tf.concat([x, y], -1)\<close> joins the rows side by side and raises when the row counts differ.
\<close>

definition tf_concat0 :: "tensor2 \<Rightarrow> tensor2 \<Rightarrow> error + tensor2" where
  "tf_concat0 x y =
     (if ncols x = ncols y then Inr (Tensor2 (ncols x) (rows x @ rows y))
      else Inl (InvalidArgumentError ''ConcatOp : Dimensions of inputs should match''))"


text \<open>
  The slices the source takes. A slice never raises: rows outside the tensor are left out.
  \<open>slice_last\<close> is \<^verbatim>\<open>x[-1:, :]\<close>, \<open>slice_row t\<close> is \<^verbatim>\<open>x[t : t + 1, :]\<close> and \<open>slice_init\<close> is
  \<^verbatim>\<open>x[:-1, :]\<close>.
\<close>

definition slice_last :: "tensor2 \<Rightarrow> tensor2" where
  "slice_last x = Tensor2 (ncols x) (drop (nrows x - 1) (rows x))"

definition slice_row :: "nat \<Rightarrow> tensor2 \<Rightarrow> tensor2" where
  "slice_row t x = Tensor2 (ncols x) (take 1 (drop t (rows x)))"

definition slice_init :: "tensor2 \<Rightarrow> tensor2" where
  "slice_init x = Tensor2 (ncols x) (butlast (rows x))"

section \<open>The rollout engine (\<^verbatim>\<open>modeopt/rollouts.py\<close>)\<close>

text \<open>
  The transition function is a Python callable
  \<^verbatim>\<open>dynamics(state_mean, control_mean, state_var, control_var)\<close>; it returns the next state's
  mean and variance or raises. A control variance may be \<^verbatim>\<open>None\<close>.
\<close>

type_synonym dynamics_fn =
  "tensor2 \<Rightarrow> tensor2 \<Rightarrow> tensor2 \<Rightarrow> tensor2 option \<Rightarrow> error + tensor2 \<times> tensor2"

text \<open>
  The body of \<^verbatim>\<open>for t in range(horizon)\<close>, over the indices still to run:
  \<^verbatim>\<open>
    control_mean = control_means[t : t + 1, :]
    if control_vars is not None: control_var = control_vars[t : t + 1, :]
    else: control_var = None
    next_state_mean, next_state_var = dynamics(
        state_means[-1:, :], control_mean, state_vars[-1:, :], control_var)
    state_means = tf.concat([state_means, next_state_mean], 0)
    state_vars = tf.concat([state_vars, next_state_var], 0)
  \<close>
\<close>

fun rollout_controls_loop ::
  "dynamics_fn \<Rightarrow> tensor2 \<Rightarrow> tensor2 option \<Rightarrow> nat list \<Rightarrow> tensor2 \<Rightarrow> tensor2 \<Rightarrow>
     error + tensor2 \<times> tensor2" where
  "rollout_controls_loop dynamics control_means control_vars [] state_means state_vars =
     Inr (state_means, state_vars)"
| "rollout_controls_loop dynamics control_means control_vars (t # ts) state_means state_vars =
     (let control_mean = slice_row t control_means;
          control_var = (case control_vars of None \<Rightarrow> None | Some cv \<Rightarrow> Some (slice_row t cv))
      in case dynamics (slice_last state_means) control_mean (slice_last state_vars) control_var of
           Inl e \<Rightarrow> Inl e
         | Inr (next_state_mean, next_state_var) \<Rightarrow>
             (case tf_concat0 state_means next_state_mean of
                Inl e \<Rightarrow> Inl e
              | Inr state_means' \<Rightarrow>
                  (case tf_concat0 state_vars next_state_var of
                     Inl e \<Rightarrow> Inl e
                   | Inr state_vars' \<Rightarrow>
                       rollout_controls_loop dynamics control_means control_vars ts
                         state_means' state_vars')))"

definition rollout_controls_in_dynamics ::
  "dynamics_fn \<Rightarrow> tensor2 \<Rightarrow> tensor2 \<Rightarrow> tensor2 option \<Rightarrow> tensor2 option \<Rightarrow>
     error + tensor2 \<times> tensor2" where
  "rollout_controls_in_dynamics dynamics start_state control_means start_state_var control_vars =
     (let horizon = nrows control_means;
          start_state_var' =
            (case start_state_var of None \<Rightarrow> tf_zeros 1 (ncols start_state) | Some v \<Rightarrow> v)
      in rollout_controls_loop dynamics control_means control_vars [0..<horizon]
           start_state start_state_var')"

text \<open>
  A policy (\<^verbatim>\<open>modeopt.policies\<close>, an external class) as the rollout and the optimisers use
  it: \<^verbatim>\<open>policy.num_time_steps\<close>, \<^verbatim>\<open>policy(t)\<close>, \<^verbatim>\<open>policy()\<close> and \<^verbatim>\<open>policy.entropy()\<close>.
\<close>

record VariationalPolicy =
  num_time_steps :: int
  at_step :: "nat \<Rightarrow> error + tensor2 \<times> tensor2 option"
  all_steps :: "error + tensor2 \<times> tensor2 option"
  entropy :: "error + real"

text \<open>
  The body of \<^verbatim>\<open>for t in range(policy.num_time_steps)\<close>:
  \<^verbatim>\<open>
    control_mean, control_var = policy(t)
    next_state_mean, next_state_var = dynamics(
        state_means[-1:, :], control_mean, state_vars[-1:, :], control_var)
    state_means = tf.concat([state_means, next_state_mean], 0)
    state_vars = tf.concat([state_vars, next_state_var], 0)
  \<close>
\<close>

fun rollout_policy_loop ::
  "VariationalPolicy \<Rightarrow> dynamics_fn \<Rightarrow> nat list \<Rightarrow> tensor2 \<Rightarrow> tensor2 \<Rightarrow> error + tensor2 \<times> tensor2" where
  "rollout_policy_loop pol dynamics [] state_means state_vars = Inr (state_means, state_vars)"
| "rollout_policy_loop pol dynamics (t # ts) state_means state_vars =
     (case at_step pol t of
        Inl e \<Rightarrow> Inl e
      | Inr (control_mean, control_var) \<Rightarrow>
          (case dynamics (slice_last state_means) control_mean (slice_last state_vars) control_var of
             Inl e \<Rightarrow> Inl e
           | Inr (next_state_mean, next_state_var) \<Rightarrow>
               (case tf_concat0 state_means next_state_mean of
                  Inl e \<Rightarrow> Inl e
                | Inr state_means' \<Rightarrow>
                    (case tf_concat0 state_vars next_state_var of
                       Inl e \<Rightarrow> Inl e
                     | Inr state_vars' \<Rightarrow>
                         rollout_policy_loop pol dynamics ts state_means' state_vars'))))"

text \<open>\<^verbatim>\<open>range(n)\<close> is empty for \<open>n \<le> 0\<close>.\<close>

definition rollout_policy_in_dynamics ::
  "VariationalPolicy \<Rightarrow> dynamics_fn \<Rightarrow> tensor2 \<Rightarrow> tensor2 option \<Rightarrow> error + tensor2 \<times> tensor2" where
  "rollout_policy_in_dynamics pol dynamics start_state start_state_var =
     (let start_state_var' =
            (case start_state_var of None \<Rightarrow> tf_zeros 1 (ncols start_state) | Some v \<Rightarrow> v)
      in rollout_policy_loop pol dynamics [0..<nat (num_time_steps pol)]
           start_state start_state_var')"

text \<open>
  What the length invariant assumes of its collaborators. A belief of dimension \<open>d\<close> is one
  row of width \<open>d\<close>; a one-step transition function maps a state belief and one control row
  (with one variance row, or none) to a state belief without raising.
\<close>

definition is_belief :: "nat \<Rightarrow> tensor2 \<Rightarrow> bool" where
  "is_belief d x \<longleftrightarrow> ncols x = d \<and> nrows x = 1"

definition is_control :: "tensor2 \<times> tensor2 option \<Rightarrow> bool" where
  "is_control c \<longleftrightarrow> nrows (fst c) = 1 \<and> (case snd c of None \<Rightarrow> True | Some v \<Rightarrow> nrows v = 1)"

definition one_step_dynamics :: "nat \<Rightarrow> dynamics_fn \<Rightarrow> bool" where
  "one_step_dynamics d dynamics \<longleftrightarrow>
     (\<forall>sm cm sv cv. is_belief d sm \<longrightarrow> is_belief d sv \<longrightarrow> is_control (cm, cv) \<longrightarrow>
        (\<exists>m v. dynamics sm cm sv cv = Inr (m, v) \<and> is_belief d m \<and> is_belief d v))"

definition start_var_or_zeros :: "nat \<Rightarrow> tensor2 option \<Rightarrow> tensor2" where
  "start_var_or_zeros d start_state_var =
     (case start_state_var of None \<Rightarrow> tf_zeros 1 d | Some v \<Rightarrow> v)"

section \<open>The variational trajectory optimiser (\<^verbatim>\<open>modeopt/trajectory_optimisers/variational.py\<close>)\<close>

text \<open>
  The optimiser holds a policy, a dynamics object, a running-cost and a terminal-cost
  function. Of the dynamics object (\<^verbatim>\<open>modeopt.dynamics.GPDynamics\<close>, outside the sources) the
  optimiser uses the call \<^verbatim>\<open>dynamics(...)\<close>, through the rollout, and the method
  \<^verbatim>\<open>mode_variational_expectation(state_mean, control_mean, state_var, control_var)\<close>.
  The cost functions stay abstract (\<open>'c\<close>).
\<close>

record GPDynamics =
  call :: dynamics_fn
  dynamics_mode_variational_expectation ::
    "tensor2 \<Rightarrow> tensor2 \<Rightarrow> tensor2 \<Rightarrow> tensor2 option \<Rightarrow> error + real"

record 'c TrajectoryOptimiser =
  policy :: VariationalPolicy
  dynamics :: GPDynamics
  cost_fn :: 'c
  terminal_cost_fn :: 'c

text \<open>
  \<^verbatim>\<open>modeopt.cost_functions.expected_quadratic_costs(cost_fn, terminal_cost_fn, state_means,
  state_vars, policy)\<close> is outside the sources; it is a parameter of the embedding and returns
  the expected running costs, one per step, and the expected terminal cost.
\<close>

type_synonym 'c expected_costs_fn =
  "'c \<Rightarrow> 'c \<Rightarrow> tensor2 \<Rightarrow> tensor2 \<Rightarrow> VariationalPolicy \<Rightarrow> error + real list \<times> real"

text \<open>
  A cost function looked up by name in the module's namespace. The module binds one:
  \<^verbatim>\<open>from modeopt.cost_functions import expected_quadratic_costs\<close>. Any other name raises
  NameError when it is evaluated.
\<close>

definition variational_module_global ::
  "'c expected_costs_fn \<Rightarrow> string \<Rightarrow> error + 'c expected_costs_fn" where
  "variational_module_global expected_quadratic_costs name =
     (if name = ''expected_quadratic_costs'' then Inr expected_quadratic_costs
      else Inl (NameError name))"

text \<open>
  \<^verbatim>\<open>VariationalTrajectoryOptimiser.elbo\<close>:
  \<^verbatim>\<open>
    entropy = self.policy.entropy()
    state_means, state_vars = rollout_policy_in_dynamics(
        self.policy, self.dynamics, start_state, start_state_var=start_state_var)
    expected_integral_costs, expected_terminal_cost = expected_costs(
        cost_fn=self.cost_fn, terminal_cost_fn=self.terminal_cost_fn,
        state_means=state_means, state_vars=state_vars, policy=self.policy)
    elbo = (-expected_terminal_cost - tf.reduce_sum(expected_integral_costs) - entropy)
    return elbo
  \<close>
\<close>

definition VariationalTrajectoryOptimiser_elbo ::
  "'c expected_costs_fn \<Rightarrow> 'c TrajectoryOptimiser \<Rightarrow> tensor2 \<Rightarrow> tensor2 option \<Rightarrow> error + real" where
  "VariationalTrajectoryOptimiser_elbo expected_quadratic_costs self start_state start_state_var =
     and_then (entropy (policy self)) (\<lambda>entropy_value.
     and_then (rollout_policy_in_dynamics (policy self) (call (dynamics self))
                 start_state start_state_var) (\<lambda>(state_means, state_vars).
     and_then (variational_module_global expected_quadratic_costs ''expected_costs'')
       (\<lambda>expected_costs.
     and_then (expected_costs (cost_fn self) (terminal_cost_fn self) state_means state_vars
                 (policy self)) (\<lambda>(expected_integral_costs, expected_terminal_cost).
     Inr (- expected_terminal_cost - sum_list expected_integral_costs - entropy_value)))))"

text \<open>
  \<^verbatim>\<open>ModeVariationalTrajectoryOptimiser.elbo\<close>:
  \<^verbatim>\<open>
    entropy = self.policy.entropy()
    state_means, state_vars = rollout_policy_in_dynamics(
        self.policy, self.dynamics, start_state, start_state_var=start_state_var)
    expected_integral_costs, expected_terminal_cost = expected_quadratic_costs(
        cost_fn=self.cost_fn, terminal_cost_fn=self.terminal_cost_fn,
        state_means=state_means, state_vars=state_vars, policy=self.policy)
    control_means, control_vars = self.policy()
    mode_var_exp = self.dynamics.mode_variational_expectation(
        state_means[:-1, :], control_means, state_vars[:-1, :], control_vars)
    elbo = (-mode_var_exp - expected_terminal_cost
            - tf.reduce_sum(expected_integral_costs) + entropy)
    return elbo
  \<close>
\<close>

definition ModeVariationalTrajectoryOptimiser_elbo ::
  "'c expected_costs_fn \<Rightarrow> 'c TrajectoryOptimiser \<Rightarrow> tensor2 \<Rightarrow> tensor2 option \<Rightarrow> error + real" where
  "ModeVariationalTrajectoryOptimiser_elbo expected_quadratic_costs self start_state start_state_var =
     and_then (entropy (policy self)) (\<lambda>entropy_value.
     and_then (rollout_policy_in_dynamics (policy self) (call (dynamics self))
                 start_state start_state_var) (\<lambda>(state_means, state_vars).
     and_then (variational_module_global expected_quadratic_costs ''expected_quadratic_costs'')
       (\<lambda>expected_costs.
     and_then (expected_costs (cost_fn self) (terminal_cost_fn self) state_means state_vars
                 (policy self)) (\<lambda>(expected_integral_costs, expected_terminal_cost).
     and_then (all_steps (policy self)) (\<lambda>(control_means, control_vars).
     and_then (dynamics_mode_variational_expectation (dynamics self)
                 (slice_init state_means) control_means (slice_init state_vars) control_vars)
       (\<lambda>mode_var_exp.
     Inr (- mode_var_exp - expected_terminal_cost - sum_list expected_integral_costs
          + entropy_value)))))))"

text \<open>
  \<^verbatim>\<open>self.elbo\<close> is the method of the instance's class: the mode variant overrides it and
  inherits \<^verbatim>\<open>build_training_loss\<close> and \<^verbatim>\<open>optimise\<close>.
\<close>

datatype optimiser_class = VariationalTrajectoryOptimiser | ModeVariationalTrajectoryOptimiser

definition elbo ::
  "optimiser_class \<Rightarrow> 'c expected_costs_fn \<Rightarrow> 'c TrajectoryOptimiser \<Rightarrow> tensor2 \<Rightarrow>
     tensor2 option \<Rightarrow> error + real" where
  "elbo cls = (case cls of
       VariationalTrajectoryOptimiser \<Rightarrow> VariationalTrajectoryOptimiser_elbo
     | ModeVariationalTrajectoryOptimiser \<Rightarrow> ModeVariationalTrajectoryOptimiser_elbo)"

text \<open>\<^verbatim>\<open>tf.function(f)\<close> compiles \<open>f\<close>; the compiled function returns what \<open>f\<close> returns.\<close>

definition tf_function :: "('a \<Rightarrow> error + real) \<Rightarrow> ('a \<Rightarrow> error + real)" where
  "tf_function f = f"

text \<open>
  \<^verbatim>\<open>
    def training_loss():
        return -self.elbo(start_state, start_state_var=start_state_var)
    if compile: return tf.function(training_loss)
    else: return training_loss
  \<close>
  The closure takes no argument.
\<close>

definition build_training_loss ::
  "optimiser_class \<Rightarrow> 'c expected_costs_fn \<Rightarrow> 'c TrajectoryOptimiser \<Rightarrow> tensor2 \<Rightarrow>
     tensor2 option \<Rightarrow> bool \<Rightarrow> (unit \<Rightarrow> error + real)" where
  "build_training_loss cls expected_quadratic_costs self start_state start_state_var compile =
     (let training_loss =
            (\<lambda>_. and_then (elbo cls expected_quadratic_costs self start_state start_state_var)
                    (\<lambda>v. Inr (- v)))
      in if compile then tf_function training_loss else training_loss)"

text \<open>
  The objective as the specification words it: minus the terminal cost, minus the sum of the
  running costs, minus the policy entropy, with the mode-variational-expectation term added
  when mode conditioning is enabled.
\<close>

definition elbo_spec :: "bool \<Rightarrow> real \<Rightarrow> real list \<Rightarrow> real \<Rightarrow> real \<Rightarrow> real" where
  "elbo_spec mode_conditioning terminal_cost running_costs policy_entropy mode_var_exp =
     - terminal_cost - sum_list running_costs - policy_entropy
     + (if mode_conditioning then mode_var_exp else 0)"

text \<open>
  A mode-variant optimiser over one time step, for evaluation: the policy has entropy 1 and
  the control 0 at its one step, the transition function keeps the state, the expected
  running cost is 2 and the expected terminal cost 3, and the mode term is 5.
\<close>

definition example_policy :: VariationalPolicy where
  "example_policy =
     \<lparr>num_time_steps = 1, at_step = (\<lambda>t. Inr (Tensor2 1 [[0]], None)),
      all_steps = Inr (Tensor2 1 [[0]], None), entropy = Inr 1\<rparr>"

definition example_optimiser :: "unit TrajectoryOptimiser" where
  "example_optimiser =
     \<lparr>policy = example_policy,
      dynamics = \<lparr>call = (\<lambda>sm cm sv cv. Inr (sm, sv)),
                  dynamics_mode_variational_expectation = (\<lambda>sm cm sv cv. Inr 5)\<rparr>,
      cost_fn = (), terminal_cost_fn = ()\<rparr>"

definition example_costs :: "unit expected_costs_fn" where
  "example_costs = (\<lambda>c tc sm sv p. Inr ([2], 3))"

section \<open>Control trajectories (\<^verbatim>\<open>modeopt/trajectories/base.py\<close>)\<close>

text \<open>
  A trajectory object is a subclass of \<^verbatim>\<open>BaseTrajectory\<close>; what the base class reads of it
  is the property \<^verbatim>\<open>controls\<close>, which raises NotImplementedError unless the subclass
  overrides it.
\<close>

record BaseTrajectory =
  controls :: "error + tensor2"

definition BaseTrajectory_controls :: "error + tensor2" where
  "BaseTrajectory_controls = Inl (NotImplementedError [])"

text \<open>
  \<^verbatim>\<open>__call__\<close> returns either the controls or the tuple \<^verbatim>\<open>(self.controls, None)\<close>:
  \<^verbatim>\<open>
    def __call__(self, timestep: Optional[int] = None, variance: Optional[bool] = False):
        if variance: return self.controls, None
        else: return self.controls
  \<close>
\<close>

datatype call_result = Controls tensor2 | ControlsAndVariance tensor2 "tensor2 option"

definition BaseTrajectory_call ::
  "BaseTrajectory \<Rightarrow> int option \<Rightarrow> bool \<Rightarrow> error + call_result" where
  "BaseTrajectory_call self timestep variance =
     (if variance then and_then (controls self) (\<lambda>c. Inr (ControlsAndVariance c None))
      else and_then (controls self) (\<lambda>c. Inr (Controls c)))"

definition horizon :: "BaseTrajectory \<Rightarrow> error + nat" where
  "horizon self = and_then (controls self) (\<lambda>c. Inr (nrows c))"

definition control_dim :: "BaseTrajectory \<Rightarrow> error + nat" where
  "control_dim self = and_then (controls self) (\<lambda>c. Inr (ncols c))"

text \<open>
  What the specification says of a call at an index: the pair of the control mean and the
  control variance of that time step.
\<close>

definition call_at_spec :: "tensor2 \<Rightarrow> tensor2 option \<Rightarrow> nat \<Rightarrow> call_result" where
  "call_at_spec control_means control_vars t =
     ControlsAndVariance (slice_row t control_means)
       (case control_vars of None \<Rightarrow> None | Some v \<Rightarrow> Some (slice_row t v))"

section \<open>The mode-consistency score (\<^verbatim>\<open>ModeOptDynamics.mode_variational_expectation\<close>)\<close>
















section \<open>The uncertain conditional (\<^verbatim>\<open>modeopt/dynamics/conditionals.py\<close>)\<close>

text \<open>
  The function is a sequence of TensorFlow and GPflow calls on tensors of several ranks. The
  tensors stay abstract (\<open>'t\<close>), as do the kernel, the inducing variable and the mean function
  (\<open>'k\<close>, \<open>'iv\<close>, \<open>'mf\<close>); the library is a record of the operations the function calls. A
  library operation returns its result or raises an exception of its own, which the
  function does not catch: InvalidArgumentError for a shape mismatch or a matrix that is
  not positive definite, and also NotImplementedError, which GPflow's dispatchers
  (\<^verbatim>\<open>covariances.Kuu\<close>, \<^verbatim>\<open>expectation\<close>) raise for a kernel, inducing variable or mean
  function they have no implementation for.
\<close>

text \<open>The second and third argument of GPflow's \<^verbatim>\<open>expectation(p, obj1, obj2)\<close>.\<close>

datatype ('k, 'iv, 'mf) expectation_arg =
  Kernel 'k | KernelInducing 'k 'iv | MeanFunction 'mf

record ('t, 'k, 'iv, 'mf) gp_library =
  op_dim0 :: "'t \<Rightarrow> error + nat"
  op_unstack_shape :: "'t \<Rightarrow> error + nat \<times> nat"
  op_zeros :: "nat list \<Rightarrow> 't"
  op_expectation ::
    "'t \<times> 't \<Rightarrow> ('k, 'iv, 'mf) expectation_arg \<Rightarrow> ('k, 'iv, 'mf) expectation_arg option \<Rightarrow>
       error + 't"
  op_Kuu :: "'iv \<Rightarrow> 'k \<Rightarrow> error + 't"
  op_is_Zero :: "'mf \<Rightarrow> bool"
  op_band_part :: "'t \<Rightarrow> int \<Rightarrow> int \<Rightarrow> error + 't"
  op_transpose :: "'t \<Rightarrow> error + 't"
  op_cholesky :: "'t \<Rightarrow> error + 't"
  op_triangular_solve :: "'t \<Rightarrow> 't \<Rightarrow> bool \<Rightarrow> bool \<Rightarrow> error + 't"
  op_expand_dims :: "'t \<Rightarrow> nat \<Rightarrow> error + 't"
  op_tile :: "'t \<Rightarrow> nat list \<Rightarrow> error + 't"
  op_matmul :: "'t \<Rightarrow> 't \<Rightarrow> bool \<Rightarrow> bool \<Rightarrow> error + 't"
  op_adjoint :: "'t \<Rightarrow> error + 't"
  op_reshape :: "'t \<Rightarrow> nat list \<Rightarrow> error + 't"
  op_einsum :: "string \<Rightarrow> 't list \<Rightarrow> error + 't"
  op_trace :: "'t \<Rightarrow> error + 't"
  op_diag :: "'t \<Rightarrow> error + 't"
  op_diag_part :: "'t \<Rightarrow> error + 't"
  op_add :: "'t \<Rightarrow> 't \<Rightarrow> error + 't"
  op_sub :: "'t \<Rightarrow> 't \<Rightarrow> error + 't"
  op_mul :: "'t \<Rightarrow> 't \<Rightarrow> error + 't"
  op_square :: "'t \<Rightarrow> error + 't"


text \<open>
  The exceptions a library can raise: \<open>library_raises L e\<close> when some operation of \<open>L\<close>
  raises \<open>e\<close> on some arguments. A result raises only what the library raises when it is a
  value or such an exception.
\<close>

definition library_raises :: "('t, 'k, 'iv, 'mf) gp_library \<Rightarrow> error \<Rightarrow> bool" where
  "library_raises L e \<longleftrightarrow>
     (\<exists>x. op_dim0 L x = Inl e) \<or>
     (\<exists>x. op_unstack_shape L x = Inl e) \<or>
     (\<exists>p a b. op_expectation L p a b = Inl e) \<or>
     (\<exists>iv k. op_Kuu L iv k = Inl e) \<or>
     (\<exists>x lo hi. op_band_part L x lo hi = Inl e) \<or>
     (\<exists>x. op_transpose L x = Inl e) \<or>
     (\<exists>x. op_cholesky L x = Inl e) \<or>
     (\<exists>a b lower adj. op_triangular_solve L a b lower adj = Inl e) \<or>
     (\<exists>x axis. op_expand_dims L x axis = Inl e) \<or>
     (\<exists>x mult. op_tile L x mult = Inl e) \<or>
     (\<exists>a b ta tb. op_matmul L a b ta tb = Inl e) \<or>
     (\<exists>x. op_adjoint L x = Inl e) \<or>
     (\<exists>x s. op_reshape L x s = Inl e) \<or>
     (\<exists>eq xs. op_einsum L eq xs = Inl e) \<or>
     (\<exists>x. op_trace L x = Inl e) \<or>
     (\<exists>x. op_diag L x = Inl e) \<or>
     (\<exists>x. op_diag_part L x = Inl e) \<or>
     (\<exists>a b. op_add L a b = Inl e) \<or>
     (\<exists>a b. op_sub L a b = Inl e) \<or>
     (\<exists>a b. op_mul L a b = Inl e) \<or>
     (\<exists>x. op_square L x = Inl e)"

definition raises_only_what_library_raises ::
  "('t, 'k, 'iv, 'mf) gp_library \<Rightarrow> error + 'a \<Rightarrow> bool" where
  "raises_only_what_library_raises L r =
     (case r of Inl e \<Rightarrow> library_raises L e | Inr _ \<Rightarrow> True)"

text \<open>
  Two libraries for evaluation, over scalars standing for one-by-one tensors. In the first
  every operation returns and the arithmetic is that of the reals. The second is the first
  with a \<^verbatim>\<open>covariances.Kuu\<close> that has no implementation for the inducing variable it is
  given, as GPflow's dispatcher has none for a class it does not know (the
  \<^verbatim>\<open>FakeInducingPoints\<close> of this module is one).
\<close>

definition scalar_library :: "(real, unit, unit, unit) gp_library" where
  "scalar_library =
     \<lparr>op_dim0 = (\<lambda>x. Inr 1), op_unstack_shape = (\<lambda>x. Inr (1, 1)), op_zeros = (\<lambda>s. 0),
      op_expectation = (\<lambda>p a b. Inr (fst p)), op_Kuu = (\<lambda>iv k. Inr 1),
      op_is_Zero = (\<lambda>mf. True),
      op_band_part = (\<lambda>x lo hi. Inr x), op_transpose = Inr, op_cholesky = Inr,
      op_triangular_solve = (\<lambda>a b lower adj. Inr (b / a)),
      op_expand_dims = (\<lambda>x axis. Inr x), op_tile = (\<lambda>x mult. Inr x),
      op_matmul = (\<lambda>a b ta tb. Inr (a * b)), op_adjoint = Inr,
      op_reshape = (\<lambda>x s. Inr x), op_einsum = (\<lambda>eq xs. Inr (prod_list xs)),
      op_trace = Inr, op_diag = Inr, op_diag_part = Inr,
      op_add = (\<lambda>a b. Inr (a + b)), op_sub = (\<lambda>a b. Inr (a - b)),
      op_mul = (\<lambda>a b. Inr (a * b)), op_square = (\<lambda>x. Inr (x * x))\<rparr>"

definition undispatched_library :: "(real, unit, unit, unit) gp_library" where
  "undispatched_library =
     scalar_library\<lparr>op_Kuu := (\<lambda>iv k.
        Inl (NotImplementedError ''Could not find signature for Kuu''))\<rparr>"

section \<open>Running the optimisation (\<^verbatim>\<open>optimise\<close>)\<close>

text \<open>
  The parameters of the policy and of the dynamics model are TensorFlow variables, shared
  mutable objects: a store maps the identity of a variable to its value and its trainable
  flag, and a module (\<^verbatim>\<open>tf.Module\<close>) is known by the identities of its variables. Two modules
  may hold the same variable.
\<close>

record 'v variable =
  var_value :: 'v
  var_trainable :: bool

type_synonym 'v store = "nat \<Rightarrow> 'v variable"

text \<open>
  \<^verbatim>\<open>gpflow.set_trainable(module, flag)\<close> sets the flag of every variable of the module, and
  \<^verbatim>\<open>module.trainable_variables\<close> lists the module's variables whose flag is set.
\<close>

definition set_trainable :: "nat list \<Rightarrow> bool \<Rightarrow> 'v store \<Rightarrow> 'v store" where
  "set_trainable variables flag st =
     (\<lambda>i. if i \<in> set variables then (st i)\<lparr>var_trainable := flag\<rparr> else st i)"

definition trainable_variables :: "nat list \<Rightarrow> 'v store \<Rightarrow> nat list" where
  "trainable_variables variables st = filter (\<lambda>i. var_trainable (st i)) variables"

text \<open>\<^verbatim>\<open>Scipy.assign_tensors(variables, values)\<close> assigns the values to the variables in turn.\<close>

fun assign_tensors :: "nat list \<Rightarrow> 'v list \<Rightarrow> 'v store \<Rightarrow> 'v store" where
  "assign_tensors (i # vars) (v # vals) st =
     assign_tensors vars vals (st(i := (st i)\<lparr>var_value := v\<rparr>))"
| "assign_tensors _ _ st = st"

text \<open>
  The step callback handed to the optimizer is one of three closures of \<^verbatim>\<open>optimise\<close>, or
  \<^verbatim>\<open>None\<close>. The closures call the monitor and the checkpoint manager, which write logs and
  files and assign no variable.
\<close>

datatype step_callback = MonitorAndSave | MonitorOnly | SaveOnly

text \<open>
  The external optimizer, \<^verbatim>\<open>gpflow.optimizers.Scipy().minimize(closure, variables, method,
  constraints, step_callback, options)\<close>. Its numerical solver is a black box: from the loss
  as a function of the values of the variables it was handed, their initial values and
  the options, it yields the values it leaves in those variables, and its result or the
  exception that ended it. \<^verbatim>\<open>minimize\<close> evaluates the closure with candidate values assigned
  to the variables it was handed and assigns the final values to them; it assigns no other
  variable.
\<close>

type_synonym ('v, 'k, 'r) solver =
  "('v list \<Rightarrow> error + real) \<Rightarrow> 'v list \<Rightarrow> string \<Rightarrow> 'k \<Rightarrow> step_callback option \<Rightarrow> bool \<Rightarrow> int \<Rightarrow>
     'v list \<times> (error + 'r)"

definition Scipy_minimize ::
  "('v, 'k, 'r) solver \<Rightarrow> ('v store \<Rightarrow> error + real) \<Rightarrow> nat list \<Rightarrow> string \<Rightarrow> 'k \<Rightarrow>
     step_callback option \<Rightarrow> bool \<Rightarrow> int \<Rightarrow> 'v store \<Rightarrow> (error + 'r) \<times> 'v store" where
  "Scipy_minimize solve closure variables method_name constraints callback disp_flag maxiter st =
     (case solve (\<lambda>values. closure (assign_tensors variables values st))
             (map (\<lambda>i. var_value (st i)) variables) method_name constraints callback disp_flag
             maxiter of
        (final, outcome) \<Rightarrow> (outcome, assign_tensors variables final st))"

text \<open>
  The training specification (\<open>spec_method\<close> is its field \<^verbatim>\<open>method\<close>). The class \<^verbatim>\<open>VariationalTrajectoryOptimiserTrainingSpec\<close> has
  no field \<^verbatim>\<open>compile_loss_fn\<close> (\<open>None\<close> here); the mode and explorative specifications
  have it. \<^verbatim>\<open>monitor\<close> and \<^verbatim>\<open>manager\<close> are external objects or \<^verbatim>\<open>None\<close>.
\<close>

record training_spec =
  max_iterations :: int
  spec_method :: string
  disp :: bool
  compile_loss_fn :: "bool option"
  monitor :: "unit option"
  manager :: "unit option"

text \<open>
  \<^verbatim>\<open>
    if training_spec.monitor and training_spec.manager: def callback(...): monitor; save
    elif training_spec.monitor is not None: def callback(...): monitor
    elif training_spec.manager is not None: def callback(...): save
    else: callback = None
  \<close>
\<close>

definition choose_callback :: "training_spec \<Rightarrow> step_callback option" where
  "choose_callback spec =
     (if monitor spec \<noteq> None \<and> manager spec \<noteq> None then Some MonitorAndSave
      else if monitor spec \<noteq> None then Some MonitorOnly
      else if manager spec \<noteq> None then Some SaveOnly
      else None)"

text \<open>
  An instance of the variational optimiser (either variant) over the store: the variables
  of \<^verbatim>\<open>self.policy\<close> and of \<^verbatim>\<open>self.dynamics\<close>, what the optimiser's policy, dynamics and cost
  functions compute at given values of the variables, the attribute \<^verbatim>\<open>self.optimiser\<close>
  (set by the constructor) and the statistics \<^verbatim>\<open>self.policy.variational_dist.mean()\<close> and
  \<^verbatim>\<open>.variance()\<close> that \<^verbatim>\<open>optimise\<close> prints.
\<close>

record ('v, 'c, 'k, 'r) variational_instance =
  policy_variables :: "nat list"
  dynamics_variables :: "nat list"
  behaviour :: "'v store \<Rightarrow> 'c TrajectoryOptimiser"
  optimiser :: "('v, 'k, 'r) solver option"
  variational_dist_stats :: "'v store \<Rightarrow> error + unit"

text \<open>
  \<^verbatim>\<open>VariationalTrajectoryOptimiser.optimise\<close>, inherited by the mode variant:
  \<^verbatim>\<open>
    gpf.set_trainable(self.dynamics, False)
    ... callback ...
    training_loss = self.build_training_loss(
        start_state, start_state_var=None, compile=training_spec.compile_loss_fn)
    optimisation_result = self.optimiser.minimize(
        training_loss, self.policy.trainable_variables, method=training_spec.method,
        constraints=constraints, step_callback=callback,
        options={"disp": training_spec.disp, "maxiter": training_spec.max_iterations})
    print(self.policy()); print(self.policy.variational_dist.mean()); ...
    return optimisation_result
  \<close>
  The result is the outcome and the store as the call leaves it.
\<close>

definition VariationalTrajectoryOptimiser_optimise ::
  "optimiser_class \<Rightarrow> 'c expected_costs_fn \<Rightarrow> ('v, 'c, 'k, 'r) variational_instance \<Rightarrow> tensor2 \<Rightarrow>
     training_spec \<Rightarrow> 'k \<Rightarrow> 'v store \<Rightarrow> (error + 'r) \<times> 'v store" where
  "VariationalTrajectoryOptimiser_optimise cls expected_quadratic_costs self start_state spec
       constraints st =
     (let st1 = set_trainable (dynamics_variables self) False st;
          callback = choose_callback spec
      in case getattr ''compile_loss_fn'' (compile_loss_fn spec) of
           Inl e \<Rightarrow> (Inl e, st1)
         | Inr compile \<Rightarrow>
             let training_loss =
                   (\<lambda>s. build_training_loss cls expected_quadratic_costs (behaviour self s)
                          start_state None compile ())
             in (case getattr ''optimiser'' (optimiser self) of
                   Inl e \<Rightarrow> (Inl e, st1)
                 | Inr solve \<Rightarrow>
                     (case Scipy_minimize solve training_loss
                             (trainable_variables (policy_variables self) st1) (spec_method spec)
                             constraints callback (disp spec) (max_iterations spec) st1 of
                        (Inl e, st2) \<Rightarrow> (Inl e, st2)
                      | (Inr optimisation_result, st2) \<Rightarrow>
                          (and_then (all_steps (policy (behaviour self st2))) (\<lambda>_.
                           and_then (variational_dist_stats self st2) (\<lambda>_.
                           Inr optimisation_result)), st2))))"

text \<open>
  An instance of the explorative optimiser
  (\<^verbatim>\<open>modeopt/trajectory_optimisers/explorative.py\<close>). Its constructor only calls the
  constructor of the base class (outside the sources), so \<^verbatim>\<open>self.optimiser\<close> and
  \<^verbatim>\<open>self._training_loss\<close> are attributes that may be missing; \<^verbatim>\<open>self._training_loss\<close> may
  also hold \<^verbatim>\<open>None\<close>. The objective is a function of the values of the variables, of the
  start state and of the start variance.
\<close>

record ('v, 'k, 'r) explorative_instance =
  exp_policy_variables :: "nat list"
  exp_dynamics_variables :: "nat list"
  objective :: "'v store \<Rightarrow> tensor2 \<Rightarrow> tensor2 option \<Rightarrow> error + real"
  exp_optimiser :: "('v, 'k, 'r) solver option"
  attr_training_loss :: "('v store \<Rightarrow> error + real) option option"

text \<open>
  \<^verbatim>\<open>
    def training_loss(): return -self.objective(start_state, start_state_var=start_state_var)
    if compile: self._training_loss = tf.function(training_loss)
    else: self._training_loss = training_loss
    return self._training_loss
  \<close>
\<close>

definition Explorative_build_training_loss ::
  "('v, 'k, 'r) explorative_instance \<Rightarrow> tensor2 \<Rightarrow> tensor2 option \<Rightarrow> bool \<Rightarrow>
     ('v store \<Rightarrow> error + real) \<times> ('v, 'k, 'r) explorative_instance" where
  "Explorative_build_training_loss self start_state start_state_var compile =
     (let training_loss =
            (\<lambda>s. and_then (objective self s start_state start_state_var) (\<lambda>v. Inr (- v)));
          stored = (if compile then tf_function training_loss else training_loss)
      in (stored, self\<lparr>attr_training_loss := Some (Some stored)\<rparr>))"

text \<open>
  \<^verbatim>\<open>ExplorativeTrajectoryOptimiser.optimise\<close>:
  \<^verbatim>\<open>
    gpf.set_trainable(self.dynamics, False)
    ... callback ...
    if self._training_loss is None:
        self._training_loss = self.build_training_loss(
            start_state, start_state_var=None, compile=training_spec.compile_loss_fn)
    optimisation_result = self.optimiser.minimize(
        self._training_loss, self.policy.trainable_variables, method=training_spec.method,
        constraints=constraints, step_callback=callback,
        options={"disp": training_spec.disp, "maxiter": training_spec.max_iterations})
    return optimisation_result
  \<close>
  The result is the outcome, the instance and the store as the call leaves them.
\<close>

definition ExplorativeTrajectoryOptimiser_optimise ::
  "('v, 'k, 'r) explorative_instance \<Rightarrow> tensor2 \<Rightarrow> training_spec \<Rightarrow> 'k \<Rightarrow> 'v store \<Rightarrow>
     (error + 'r) \<times> ('v, 'k, 'r) explorative_instance \<times> 'v store" where
  "ExplorativeTrajectoryOptimiser_optimise self start_state spec constraints st =
     (let st1 = set_trainable (exp_dynamics_variables self) False st;
          callback = choose_callback spec
      in case getattr ''_training_loss'' (attr_training_loss self) of
           Inl e \<Rightarrow> (Inl e, self, st1)
         | Inr current \<Rightarrow>
             (case (case current of
                      Some loss \<Rightarrow> Inr (loss, self)
                    | None \<Rightarrow>
                        and_then (getattr ''compile_loss_fn'' (compile_loss_fn spec)) (\<lambda>compile.
                          Inr (Explorative_build_training_loss self start_state None compile))) of
                Inl e \<Rightarrow> (Inl e, self, st1)
              | Inr (loss, self1) \<Rightarrow>
                  (case getattr ''optimiser'' (exp_optimiser self1) of
                     Inl e \<Rightarrow> (Inl e, self1, st1)
                   | Inr solve \<Rightarrow>
                       (case Scipy_minimize solve loss
                               (trainable_variables (exp_policy_variables self1) st1)
                               (spec_method spec) constraints callback (disp spec)
                               (max_iterations spec) st1 of
                          (outcome, st2) \<Rightarrow> (outcome, self1, st2)))))"

text \<open>
  The frame of a run from the store \<open>st\<close> to the store \<open>st'\<close>: every variable of the
  dynamics model keeps its value and ends non-trainable, and a variable whose value changed
  is a variable of the policy that was trainable and is no variable of the dynamics model.
\<close>

definition dynamics_frozen :: "nat list \<Rightarrow> nat list \<Rightarrow> 'v store \<Rightarrow> 'v store \<Rightarrow> bool" where
  "dynamics_frozen policy_vars dynamics_vars st st' \<longleftrightarrow>
     (\<forall>i \<in> set dynamics_vars. var_value (st' i) = var_value (st i) \<and> \<not> var_trainable (st' i))
     \<and> (\<forall>i. var_value (st' i) \<noteq> var_value (st i) \<longrightarrow>
            i \<in> set policy_vars \<and> var_trainable (st i) \<and> i \<notin> set dynamics_vars)"

text \<open>
  For evaluation: a store of three trainable variables of value 10, where variable 0 belongs
  to the policy, variable 1 to the dynamics model and variable 2 to both, and a solver that
  leaves each variable it was handed one higher.
\<close>

definition example_store :: "int store" where
  "example_store = (\<lambda>i. \<lparr>var_value = 10, var_trainable = True\<rparr>)"

definition example_solver :: "(int, unit, nat) solver" where
  "example_solver = (\<lambda>loss initial m k cb d n. (map (\<lambda>v. v + 1) initial, Inr (length initial)))"

definition example_variational_instance :: "(int, unit, unit, nat) variational_instance" where
  "example_variational_instance =
     \<lparr>policy_variables = [0, 2], dynamics_variables = [1, 2],
      behaviour = (\<lambda>s. example_optimiser), optimiser = Some example_solver,
      variational_dist_stats = (\<lambda>s. Inr ())\<rparr>"

definition example_explorative_instance :: "(int, unit, nat) explorative_instance" where
  "example_explorative_instance =
     \<lparr>exp_policy_variables = [0, 2], exp_dynamics_variables = [1, 2],
      objective = (\<lambda>s start v. Inr 0), exp_optimiser = Some example_solver,
      attr_training_loss = Some None\<rparr>"

definition example_spec :: training_spec where
  "example_spec =
     \<lparr>max_iterations = 100, spec_method = ''SLSQP'', disp = True, compile_loss_fn = Some True,
      monitor = None, manager = None\<rparr>"

section \<open>The covariance conditional and its shapes (\<^verbatim>\<open>base_covariance_conditional\<close>)\<close>

text \<open>
  Whether the function raises, and the shape of what it returns, depend on the shapes of its
  arguments alone, so the embedding computes with shapes: a tensor is the list of its
  dimension sizes. Each TensorFlow operation is given by its documented shape rule and
  raises when its arguments do not fit.
\<close>

type_synonym shape = "nat list"

text \<open>\<^verbatim>\<open>tf.shape(x)[-k]\<close>, for \<open>k\<close> at least one: raises when the rank is below \<open>k\<close>.\<close>

definition dim_from_end :: "shape \<Rightarrow> nat \<Rightarrow> error + nat" where
  "dim_from_end s k =
     (if k \<le> length s then Inr (s ! (length s - k))
      else Inl (InvalidArgumentError ''slice index out of bounds''))"

text \<open>
  \<^verbatim>\<open>tf.transpose(x, perm)\<close> needs a permutation of the axes of \<open>x\<close>. The permutation the
  source builds from the rank \<open>K\<close> moves the first axis to the last but one place:
  \<^verbatim>\<open>tf.concat([tf.reshape(tf.range(1, K - 1), [K - 2]), tf.reshape(0, [1]),
  tf.reshape(K - 1, [1])], 0)\<close>.
\<close>

definition tf_transpose :: "shape \<Rightarrow> nat list \<Rightarrow> error + shape" where
  "tf_transpose s perm =
     (if length perm = length s \<and> set perm = {0..<length s} then Inr (map (\<lambda>p. s ! p) perm)
      else Inl (InvalidArgumentError ''transpose expects a permutation of the axes''))"

definition leading_perm :: "nat \<Rightarrow> nat list" where
  "leading_perm K = [1..<K - 1] @ [0] @ [K - 1]"

text \<open>
  \<^verbatim>\<open>tf.debugging.assert_shapes\<close> takes the tensors in order, each with a list of symbols
  for its dimensions, with or without a leading \<^verbatim>\<open>...\<close>. Without it the rank must be the
  number of symbols; with it the rank must be at least that, and the symbols name the last
  dimensions. A symbol met for the first time is bound to the size found; met again, the
  size must be the bound one. Any failure raises ValueError.
\<close>

type_synonym shape_spec = "bool \<times> string list"

fun bind_sizes :: "(string \<times> nat) list \<Rightarrow> (string \<times> nat) list \<Rightarrow> (string \<times> nat) list option" where
  "bind_sizes env [] = Some env"
| "bind_sizes env ((symbol, n) # rest) =
     (case map_of env symbol of
        Some m \<Rightarrow> if m = n then bind_sizes env rest else None
      | None \<Rightarrow> bind_sizes ((symbol, n) # env) rest)"

fun assert_shapes_from :: "(string \<times> nat) list \<Rightarrow> (shape \<times> shape_spec) list \<Rightarrow> error + unit" where
  "assert_shapes_from env [] = Inr ()"
| "assert_shapes_from env ((s, (ellipsis, symbols)) # rest) =
     (if (if ellipsis then length symbols \<le> length s else length s = length symbols) then
        (case bind_sizes env (zip symbols (drop (length s - length symbols) s)) of
           None \<Rightarrow> Inl (ValueError ''base_conditional() arguments'')
         | Some env' \<Rightarrow> assert_shapes_from env' rest)
      else Inl (ValueError ''base_conditional() arguments''))"

definition assert_shapes :: "(shape \<times> shape_spec) list \<Rightarrow> error + unit" where
  "assert_shapes constraints = assert_shapes_from [] constraints"

text \<open>
  Broadcasting of two shapes: aligned at the last dimension, two sizes fit when they are
  equal or one of them is 1. \<^verbatim>\<open>tf.broadcast_to(x, shape)\<close> needs the shape of \<open>x\<close> to
  broadcast to exactly \<open>shape\<close>.
\<close>

fun broadcast_reversed :: "nat list \<Rightarrow> nat list \<Rightarrow> nat list option" where
  "broadcast_reversed [] ys = Some ys"
| "broadcast_reversed (x # xs) [] = Some (x # xs)"
| "broadcast_reversed (x # xs) (y # ys) =
     (if x = y \<or> y = 1 then map_option ((#) x) (broadcast_reversed xs ys)
      else if x = 1 then map_option ((#) y) (broadcast_reversed xs ys)
      else None)"

definition broadcast_shapes :: "shape \<Rightarrow> shape \<Rightarrow> error + shape" where
  "broadcast_shapes a b =
     (case broadcast_reversed (rev a) (rev b) of
        None \<Rightarrow> Inl (InvalidArgumentError ''Incompatible shapes'')
      | Some r \<Rightarrow> Inr (rev r))"

definition tf_broadcast_to :: "shape \<Rightarrow> shape \<Rightarrow> error + shape" where
  "tf_broadcast_to s target =
     (if broadcast_shapes s target = Inr target then Inr target
      else Inl (InvalidArgumentError ''Incompatible shapes for broadcasting''))"

text \<open>
  A batch of matrices \<open>[..., r, c]\<close>: the batch dimensions, the rows and the columns.
  \<^verbatim>\<open>tf.linalg.matmul(a, b, transpose_a=True)\<close> multiplies the transposed matrices of \<open>a\<close> with
  those of \<open>b\<close>, and \<^verbatim>\<open>tf.linalg.triangular_solve(matrix, rhs)\<close> solves against square
  matrices; both broadcast the batch dimensions.
\<close>

definition batch_of_matrices :: "shape \<Rightarrow> error + shape \<times> nat \<times> nat" where
  "batch_of_matrices s =
     (if 2 \<le> length s then Inr (take (length s - 2) s, s ! (length s - 2), s ! (length s - 1))
      else Inl (InvalidArgumentError ''input must be at least rank 2''))"

definition tf_matmul_transpose_a :: "shape \<Rightarrow> shape \<Rightarrow> error + shape" where
  "tf_matmul_transpose_a a b =
     and_then (batch_of_matrices a) (\<lambda>(batch_a, inner_a, rows).
     and_then (batch_of_matrices b) (\<lambda>(batch_b, inner_b, cols).
       if inner_a = inner_b then
         and_then (broadcast_shapes batch_a batch_b) (\<lambda>batch. Inr (batch @ [rows, cols]))
       else Inl (InvalidArgumentError ''Matrix size-incompatible'')))"

definition tf_triangular_solve :: "shape \<Rightarrow> shape \<Rightarrow> error + shape" where
  "tf_triangular_solve matrix rhs =
     and_then (batch_of_matrices matrix) (\<lambda>(batch_m, rows_m, cols_m).
     and_then (batch_of_matrices rhs) (\<lambda>(batch_r, rows_r, cols_r).
       if rows_m = cols_m \<and> rows_m = rows_r then
         and_then (broadcast_shapes batch_m batch_r) (\<lambda>batch. Inr (batch @ [rows_r, cols_r]))
       else Inl (InvalidArgumentError ''Input matrix and rhs are incompatible'')))"

text \<open>
  \<^verbatim>\<open>tf.expand_dims(x, axis)\<close> puts a dimension of size 1 at the axis, counted from the end
  when negative; \<^verbatim>\<open>tf.linalg.band_part\<close> keeps the shape of a tensor of rank two at least;
  \<^verbatim>\<open>tf.transpose(x)\<close> reverses the dimensions.
\<close>

definition tf_expand_dims :: "shape \<Rightarrow> int \<Rightarrow> error + shape" where
  "tf_expand_dims s axis =
     (let r = int (length s); i = (if 0 \<le> axis then axis else r + 1 + axis)
      in if 0 \<le> i \<and> i \<le> r then Inr (take (nat i) s @ [1] @ drop (nat i) s)
         else Inl (InvalidArgumentError ''expand_dims: axis out of range''))"

definition tf_band_part :: "shape \<Rightarrow> error + shape" where
  "tf_band_part s =
     (if 2 \<le> length s then Inr s else Inl (InvalidArgumentError ''input must be at least 2-dim''))"

text \<open>
  \<^verbatim>\<open>base_covariance_conditional(Km1, Km2, Lm, K12, f, *, q_sqrt=None, white=False)\<close> on the
  shapes of its arguments; the result is the shape of the covariance returned. The values
  of \<^verbatim>\<open>f\<close> and the flag \<^verbatim>\<open>white\<close> are not used by the function.
\<close>

definition base_covariance_conditional ::
  "shape \<Rightarrow> shape \<Rightarrow> shape \<Rightarrow> shape \<Rightarrow> shape \<Rightarrow> shape option \<Rightarrow> bool \<Rightarrow> error + shape" where
  "base_covariance_conditional Km1 Km2 Lm K12 f q_sqrt white =
     and_then (dim_from_end f 1) (\<lambda>num_func.
     and_then (dim_from_end Km1 1) (\<lambda>N1.
     and_then (dim_from_end Km2 1) (\<lambda>N2.
     and_then (dim_from_end f 2) (\<lambda>M.
     let K1 = length Km1; K2 = length Km2;
         perm_1 = leading_perm K1; perm_2 = leading_perm K2 in
     and_then (tf_transpose Km1 perm_1) (\<lambda>Km1.
     and_then (tf_transpose Km2 perm_2) (\<lambda>Km2.
     let shape_constraints =
           [(Km1, (True, [''M'', ''N1''])),
            (Km2, (True, [''M'', ''N2''])),
            (Lm, (False, [''M'', ''M''])),
            (K12, (True, [''N1'', ''N2''])),
            (f, (False, [''M'', ''R'']))]
           @ (case q_sqrt of
                None \<Rightarrow> []
              | Some q \<Rightarrow>
                  [(q, (False, if length q = 2 then [''M'', ''R''] else [''R'', ''M'', ''M'']))])
     in
     and_then (assert_shapes shape_constraints) (\<lambda>_.
     let leading_dims = take (length Km1 - 2) Km1 in
     and_then (tf_broadcast_to Lm (leading_dims @ Lm)) (\<lambda>Lm.
     and_then (tf_triangular_solve Lm Km1) (\<lambda>A1.
     and_then (tf_triangular_solve Lm Km2) (\<lambda>A2.
     and_then (tf_matmul_transpose_a A1 A2) (\<lambda>A1tA2.
     and_then (broadcast_shapes K12 A1tA2) (\<lambda>fcov.
     let cov_shape = leading_dims @ [num_func, N1, N2] in
     and_then (tf_expand_dims fcov (- 3)) (\<lambda>fcov_e.
     and_then (tf_broadcast_to fcov_e cov_shape) (\<lambda>fcov.
     case q_sqrt of
       None \<Rightarrow> Inr fcov
     | Some q \<Rightarrow>
         and_then
           (if length q = 2 then
              and_then (tf_expand_dims (rev q) 2) (\<lambda>q1.
              and_then (broadcast_shapes A1 q1) (\<lambda>LTA1.
              and_then (tf_expand_dims (rev q) 2) (\<lambda>q2.
              and_then (broadcast_shapes A2 q2) (\<lambda>LTA2.
              Inr (LTA1, LTA2)))))
            else if length q = 3 then
              and_then (tf_band_part q) (\<lambda>L.
              and_then (tf_broadcast_to L (leading_dims @ L)) (\<lambda>L.
              let shape1 = leading_dims @ [num_func, M, N1];
                  shape2 = leading_dims @ [num_func, M, N2] in
              and_then (tf_expand_dims A1 (- 3)) (\<lambda>A1_e.
              and_then (tf_broadcast_to A1_e shape1) (\<lambda>A1_tiled.
              and_then (tf_expand_dims A2 (- 3)) (\<lambda>A2_e.
              and_then (tf_broadcast_to A2_e shape2) (\<lambda>A2_tiled.
              and_then (tf_matmul_transpose_a L A1_tiled) (\<lambda>LTA1.
              and_then (tf_matmul_transpose_a L A2_tiled) (\<lambda>LTA2.
              Inr (LTA1, LTA2)))))))))
            else Inl (ValueError ''Bad dimension for q_sqrt''))
           (\<lambda>(LTA1, LTA2).
         and_then (tf_matmul_transpose_a LTA1 LTA2) (\<lambda>LTAtLTA.
         and_then (broadcast_shapes fcov LTAtLTA) (\<lambda>fcov.
         Inr fcov)))))))))))))))))"

text \<open>
  Agreement of the trailing dimensions, in the words of the specification: the inducing
  count \<open>M\<close> (the first dimension of \<^verbatim>\<open>Km1\<close> and of \<^verbatim>\<open>Km2\<close> as passed, both dimensions of
  \<^verbatim>\<open>Lm\<close>, the first of \<^verbatim>\<open>f\<close>), the query counts \<open>N1\<close> and \<open>N2\<close> (the last dimension of
  \<^verbatim>\<open>Km1\<close> and of \<^verbatim>\<open>Km2\<close>, the last two of \<^verbatim>\<open>K12\<close>) and the output count \<open>R\<close> (the last
  dimension of \<^verbatim>\<open>f\<close>) are the same wherever they occur, \<^verbatim>\<open>q_sqrt\<close> being \<open>[M, R]\<close> or
  \<open>[R, M, M]\<close> when given.
\<close>

definition trailing_dims_agree ::
  "shape \<Rightarrow> shape \<Rightarrow> shape \<Rightarrow> shape \<Rightarrow> shape \<Rightarrow> shape option \<Rightarrow> bool" where
  "trailing_dims_agree Km1 Km2 Lm K12 f q_sqrt \<longleftrightarrow>
     2 \<le> length Km1 \<and> 2 \<le> length Km2 \<and> 2 \<le> length K12 \<and> length f = 2 \<and>
     (let M = f ! 0; R = f ! 1; N1 = last Km1; N2 = last Km2 in
        hd Km1 = M \<and> hd Km2 = M \<and> Lm = [M, M] \<and> drop (length K12 - 2) K12 = [N1, N2]
        \<and> (case q_sqrt of
              None \<Rightarrow> True
            | Some q \<Rightarrow> q = [M, R] \<or> q = [R, M, M]))"

text \<open>The exceptions that report a shape or configuration error.\<close>

definition is_shape_error :: "error \<Rightarrow> bool" where
  "is_shape_error e =
     (case e of ValueError _ \<Rightarrow> True | InvalidArgumentError _ \<Rightarrow> True | _ \<Rightarrow> False)"

definition raises_only_shape_errors :: "error + 'a \<Rightarrow> bool" where
  "raises_only_shape_errors r = (case r of Inl e \<Rightarrow> is_shape_error e | Inr _ \<Rightarrow> True)"

section \<open>Construction and mode selection\<close>

text \<open>
  C4. Constructing a \<^verbatim>\<open>ModeOptDynamics\<close> raises AttributeError for every argument list:
  the constructor stores the mixture as \<^verbatim>\<open>self.trainable_model\<close> and then calls
  \<^verbatim>\<open>set_desired_mode\<close>, which reads \<^verbatim>\<open>self.mosvgpe\<close>, an attribute nothing assigns. So the
  constructor yields no instance, and on the instance under construction
  \<^verbatim>\<open>set_desired_mode\<close> fails for every index, leaving the instance as it was.
\<close>

theorem ModeOptDynamics_init_raises_AttributeError:
  "ModeOptDynamics_init m k nominal sd cd opt nc dir = Inl (AttributeError ''mosvgpe'')
   \<and> set_desired_mode (new_instance\<lparr>trainable_model := Some m\<rparr>) i
       = (Inl (AttributeError ''mosvgpe''), new_instance\<lparr>trainable_model := Some m\<rparr>)"
  by (simp add: ModeOptDynamics_init_def set_desired_mode_def getattr_def new_instance_def)




text \<open>
  The assertion \<^verbatim>\<open>desired_mode < self.mosvgpe.num_experts\<close> has no lower bound. On an
  instance whose \<^verbatim>\<open>mosvgpe\<close> attribute held a mixture of two experts, a state no statement
  of the class brings about, the index \<open>-1\<close> would pass it, be stored as the desired mode
  and select the last expert through Python's negative indexing, and the index \<open>-3\<close> would
  be stored before the lookup raises IndexError.
\<close>

lemma assertion_has_no_lower_bound:
  "set_desired_mode instance_with_mosvgpe (- 1)
     = (Inr (),
        instance_with_mosvgpe\<lparr>attr_desied_mode := Some (- 1),
                               attr_desired_mode_dynamics := Some (SVGPDynamics 11 None)\<rparr>)
   \<and> set_desired_mode instance_with_mosvgpe (- 3)
     = (Inl IndexError, instance_with_mosvgpe\<lparr>attr_desied_mode := Some (- 3)\<rparr>)"
  by (simp add: set_desired_mode_def getattr_def new_instance_def list_getitem_def
      example_mixture_def instance_with_mosvgpe_def)



section \<open>The rollout length invariant\<close>

lemma slice_last_is_belief:
  "ncols x = d \<Longrightarrow> rows x \<noteq> [] \<Longrightarrow> is_belief d (slice_last x)"
  by (cases "rows x" rule: rev_cases) (simp_all add: is_belief_def slice_last_def nrows_def)

lemma slice_row_one:
  "t < nrows x \<Longrightarrow> nrows (slice_row t x) = 1"
  by (cases "drop t (rows x)") (simp_all add: slice_row_def nrows_def)

lemma rollout_controls_loop_adds_one_per_step:
  assumes "one_step_dynamics d dyn"
    and "\<forall>t \<in> set ts. t < nrows control_means"
    and "case control_vars of None \<Rightarrow> True | Some cv \<Rightarrow> nrows control_means \<le> nrows cv"
    and "ncols sm = d" and "rows sm \<noteq> []" and "ncols sv = d" and "rows sv \<noteq> []"
  shows "\<exists>ms vs. rollout_controls_loop dyn control_means control_vars ts sm sv
             = Inr (Tensor2 d (rows sm @ ms), Tensor2 d (rows sv @ vs))
           \<and> length ms = length ts \<and> length vs = length ts"
  using assms(2-)
proof (induction ts arbitrary: sm sv)
  case Nil
  then show ?case by (cases sm; cases sv) simp
next
  case (Cons t ts)
  let ?cm = "slice_row t control_means"
  let ?cv = "case control_vars of None \<Rightarrow> None | Some cv \<Rightarrow> Some (slice_row t cv)"
  have t: "t < nrows control_means" using Cons.prems(1) by simp
  have "is_control (?cm, ?cv)"
    using t Cons.prems(2) by (auto simp: is_control_def slice_row_one split: option.splits)
  moreover have "is_belief d (slice_last sm)" "is_belief d (slice_last sv)"
    using Cons.prems by (simp_all add: slice_last_is_belief)
  ultimately obtain m v where step:
    "dyn (slice_last sm) ?cm (slice_last sv) ?cv = Inr (m, v)"
    "is_belief d m" "is_belief d v"
    using assms(1) unfolding one_step_dynamics_def by blast
  obtain rm rv where m: "m = Tensor2 d [rm]" and v: "v = Tensor2 d [rv]"
    using step(2,3) by (cases m; cases v) (auto simp: is_belief_def nrows_def length_Suc_conv)
  let ?sm = "Tensor2 d (rows sm @ [rm])" and ?sv = "Tensor2 d (rows sv @ [rv])"
  have "\<exists>ms vs. rollout_controls_loop dyn control_means control_vars ts ?sm ?sv
             = Inr (Tensor2 d (rows ?sm @ ms), Tensor2 d (rows ?sv @ vs))
           \<and> length ms = length ts \<and> length vs = length ts"
    using Cons.prems by (intro Cons.IH) simp_all
  then obtain ms vs where rest:
    "rollout_controls_loop dyn control_means control_vars ts ?sm ?sv
       = Inr (Tensor2 d (rows sm @ rm # ms), Tensor2 d (rows sv @ rv # vs))"
    "length ms = length ts" "length vs = length ts"
    by auto
  have "rollout_controls_loop dyn control_means control_vars (t # ts) sm sv
          = rollout_controls_loop dyn control_means control_vars ts ?sm ?sv"
    using step(1) Cons.prems(3,5) by (simp add: m v tf_concat0_def)
  with rest show ?case
    by (intro exI[of _ "rm # ms"] exI[of _ "rv # vs"]) simp
qed

lemma rollout_policy_loop_adds_one_per_step:
  assumes "one_step_dynamics d dyn"
    and "\<forall>t \<in> set ts. \<exists>c. at_step pol t = Inr c \<and> is_control c"
    and "ncols sm = d" and "rows sm \<noteq> []" and "ncols sv = d" and "rows sv \<noteq> []"
  shows "\<exists>ms vs. rollout_policy_loop pol dyn ts sm sv
             = Inr (Tensor2 d (rows sm @ ms), Tensor2 d (rows sv @ vs))
           \<and> length ms = length ts \<and> length vs = length ts"
  using assms(2-)
proof (induction ts arbitrary: sm sv)
  case Nil
  then show ?case by (cases sm; cases sv) simp
next
  case (Cons t ts)
  obtain cm cv where c: "at_step pol t = Inr (cm, cv)" "is_control (cm, cv)"
    using Cons.prems(1) by auto
  have "is_belief d (slice_last sm)" "is_belief d (slice_last sv)"
    using Cons.prems by (simp_all add: slice_last_is_belief)
  with c(2) obtain m v where step:
    "dyn (slice_last sm) cm (slice_last sv) cv = Inr (m, v)"
    "is_belief d m" "is_belief d v"
    using assms(1) unfolding one_step_dynamics_def by blast
  obtain rm rv where m: "m = Tensor2 d [rm]" and v: "v = Tensor2 d [rv]"
    using step(2,3) by (cases m; cases v) (auto simp: is_belief_def nrows_def length_Suc_conv)
  let ?sm = "Tensor2 d (rows sm @ [rm])" and ?sv = "Tensor2 d (rows sv @ [rv])"
  have "\<exists>ms vs. rollout_policy_loop pol dyn ts ?sm ?sv
             = Inr (Tensor2 d (rows ?sm @ ms), Tensor2 d (rows ?sv @ vs))
           \<and> length ms = length ts \<and> length vs = length ts"
    using Cons.prems by (intro Cons.IH) simp_all
  then obtain ms vs where rest:
    "rollout_policy_loop pol dyn ts ?sm ?sv
       = Inr (Tensor2 d (rows sm @ rm # ms), Tensor2 d (rows sv @ rv # vs))"
    "length ms = length ts" "length vs = length ts"
    by auto
  have "rollout_policy_loop pol dyn (t # ts) sm sv
          = rollout_policy_loop pol dyn ts ?sm ?sv"
    using step(1) c(1) Cons.prems(2,4) by (simp add: m v tf_concat0_def)
  with rest show ?case
    by (intro exI[of _ "rm # ms"] exI[of _ "rv # vs"]) simp
qed

lemma start_var_or_zeros_belief:
  "(case start_state_var of None \<Rightarrow> True | Some v \<Rightarrow> is_belief d v) \<Longrightarrow>
     is_belief d (start_var_or_zeros d start_state_var)"
  by (simp add: start_var_or_zeros_def is_belief_def tf_zeros_def nrows_def split: option.splits)

text \<open>
  C3. A rollout started from one start-state belief returns mean and variance sequences of
  exactly \<open>H + 1\<close> rows each, the first row being the start state (and the start variance,
  or the zero row when none is given), for every horizon \<open>H \<ge> 0\<close>: \<open>H\<close> is the number of
  rows of the control sequence, or the policy's number of time steps. The rollout does
  return, given a transition function that maps a belief and one control to a belief, a
  control variance sequence (when given) no shorter than the means, and a policy that
  yields one control at every index below \<open>H\<close>.
\<close>

theorem rollout_length_horizon_plus_one:
  assumes "one_step_dynamics d dyn"
    and "is_belief d start_state"
    and "case start_state_var of None \<Rightarrow> True | Some v \<Rightarrow> is_belief d v"
  shows "((case control_vars of None \<Rightarrow> True | Some cv \<Rightarrow> nrows control_means \<le> nrows cv) \<longrightarrow>
           (\<exists>ms vs. rollout_controls_in_dynamics dyn start_state control_means
                       start_state_var control_vars = Inr (ms, vs)
              \<and> nrows ms = nrows control_means + 1 \<and> nrows vs = nrows control_means + 1
              \<and> slice_row 0 ms = start_state
              \<and> slice_row 0 vs = start_var_or_zeros d start_state_var))
       \<and> (num_time_steps pol = int H \<longrightarrow>
           (\<forall>t < H. \<exists>c. at_step pol t = Inr c \<and> is_control c) \<longrightarrow>
           (\<exists>ms vs. rollout_policy_in_dynamics pol dyn start_state start_state_var
                       = Inr (ms, vs)
              \<and> nrows ms = H + 1 \<and> nrows vs = H + 1
              \<and> slice_row 0 ms = start_state
              \<and> slice_row 0 vs = start_var_or_zeros d start_state_var))"
proof -
  let ?v0 = "start_var_or_zeros d start_state_var"
  have v0: "is_belief d ?v0"
    using assms(3) by (rule start_var_or_zeros_belief)
  obtain s where s: "start_state = Tensor2 d [s]"
    using assms(2) by (cases start_state) (auto simp: is_belief_def nrows_def length_Suc_conv)
  obtain z where z: "?v0 = Tensor2 d [z]"
    using v0 by (cases ?v0) (auto simp: is_belief_def nrows_def length_Suc_conv)
  have unfold_v0: "(case start_state_var of None \<Rightarrow> tf_zeros 1 (ncols start_state) | Some v \<Rightarrow> v) = ?v0"
    by (simp add: start_var_or_zeros_def s split: option.splits)
  have controls:
    "\<exists>ms vs. rollout_controls_in_dynamics dyn start_state control_means
                       start_state_var control_vars = Inr (ms, vs)
              \<and> nrows ms = nrows control_means + 1 \<and> nrows vs = nrows control_means + 1
              \<and> slice_row 0 ms = start_state
              \<and> slice_row 0 vs = ?v0"
    if cv: "case control_vars of None \<Rightarrow> True | Some cv \<Rightarrow> nrows control_means \<le> nrows cv"
  proof -
    have "\<exists>ms vs. rollout_controls_loop dyn control_means control_vars
                     [0..<nrows control_means] start_state ?v0
             = Inr (Tensor2 d (rows start_state @ ms), Tensor2 d (rows ?v0 @ vs))
           \<and> length ms = length [0..<nrows control_means]
           \<and> length vs = length [0..<nrows control_means]"
      using assms(1) cv by (intro rollout_controls_loop_adds_one_per_step) (simp_all add: s z)
    then show ?thesis
      unfolding rollout_controls_in_dynamics_def Let_def unfold_v0
      by (auto simp: s z nrows_def slice_row_def)
  qed
  have by_policy:
    "\<exists>ms vs. rollout_policy_in_dynamics pol dyn start_state start_state_var
                       = Inr (ms, vs)
              \<and> nrows ms = H + 1 \<and> nrows vs = H + 1
              \<and> slice_row 0 ms = start_state
              \<and> slice_row 0 vs = ?v0"
    if H: "num_time_steps pol = int H"
      and pol: "\<forall>t < H. \<exists>c. at_step pol t = Inr c \<and> is_control c"
  proof -
    have "\<exists>ms vs. rollout_policy_loop pol dyn [0..<H] start_state ?v0
             = Inr (Tensor2 d (rows start_state @ ms), Tensor2 d (rows ?v0 @ vs))
           \<and> length ms = length [0..<H] \<and> length vs = length [0..<H]"
      using assms(1) pol by (intro rollout_policy_loop_adds_one_per_step) (simp_all add: s z)
    then show ?thesis
      unfolding rollout_policy_in_dynamics_def Let_def unfold_v0 H
      by (auto simp: s z nrows_def slice_row_def)
  qed
  show ?thesis
    by (intro conjI impI controls by_policy)
qed

theorem rollout_length_horizon_plus_one_witness:
  "(\<exists>ms vs. rollout_controls_in_dynamics (\<lambda>sm cm sv cv. Inr (sm, sv)) (Tensor2 1 [[0]])
               (Tensor2 1 [[1], [2]]) None None = Inr (ms, vs)
      \<and> nrows ms = 3 \<and> nrows vs = 3
      \<and> slice_row 0 ms = Tensor2 1 [[0]] \<and> slice_row 0 vs = Tensor2 1 [[0]])
   \<and> (\<exists>ms vs. rollout_policy_in_dynamics
               \<lparr>num_time_steps = 2, at_step = (\<lambda>t. Inr (Tensor2 1 [[1]], None)),
                all_steps = Inr (Tensor2 1 [[1], [1]], None), entropy = Inr 0\<rparr>
               (\<lambda>sm cm sv cv. Inr (sm, sv)) (Tensor2 1 [[0]]) None = Inr (ms, vs)
      \<and> nrows ms = 3 \<and> nrows vs = 3
      \<and> slice_row 0 ms = Tensor2 1 [[0]] \<and> slice_row 0 vs = Tensor2 1 [[0]])"
proof -
  have dyn: "one_step_dynamics 1 (\<lambda>sm cm sv cv. Inr (sm, sv))"
    by (simp add: one_step_dynamics_def)
  have start: "is_belief 1 (Tensor2 1 [[0]])"
    by (simp add: is_belief_def nrows_def)
  have none: "case None of None \<Rightarrow> True | Some v \<Rightarrow> is_belief 1 v"
    by simp
  show ?thesis
    using rollout_length_horizon_plus_one [OF dyn start none,
        where control_vars = None and control_means = "Tensor2 1 [[1], [2]]" and H = 2
          and pol = "\<lparr>num_time_steps = 2, at_step = (\<lambda>t. Inr (Tensor2 1 [[1]], None)),
                all_steps = Inr (Tensor2 1 [[1], [1]], None), entropy = Inr 0\<rparr>"]
    by (simp add: nrows_def start_var_or_zeros_def tf_zeros_def is_control_def numeral_3_eq_3)
qed

section \<open>The variational objective\<close>

lemma and_then_Inr [simp]: "and_then (Inr x) f = f x"
  by (simp add: and_then_def)

lemma and_then_Inl [simp]: "and_then (Inl e) f = Inl e"
  by (simp add: and_then_def)

lemma and_then_eq_Inr:
  "and_then m f = Inr y \<longleftrightarrow> (\<exists>x. m = Inr x \<and> f x = Inr y)"
  by (cases m) simp_all

lemma example_entropy: "entropy (policy example_optimiser) = Inr 1"
  by (simp add: example_optimiser_def example_policy_def)

lemma example_all_steps: "all_steps (policy example_optimiser) = Inr (Tensor2 1 [[0]], None)"
  by (simp add: example_optimiser_def example_policy_def)

lemma example_mode_term:
  "dynamics_mode_variational_expectation (dynamics example_optimiser) sm cm sv cv = Inr 5"
  by (simp add: example_optimiser_def)

lemma example_costs_value: "example_costs c tc sm sv p = Inr ([2], 3)"
  by (simp add: example_costs_def)

lemma example_rollout:
  "rollout_policy_in_dynamics (policy example_optimiser) (call (dynamics example_optimiser))
     (Tensor2 2 [[7, 8]]) None
     = Inr (Tensor2 2 [[7, 8], [7, 8]], Tensor2 2 [[0, 0], [0, 0]])"
  by (simp add: rollout_policy_in_dynamics_def example_optimiser_def example_policy_def
      tf_zeros_def slice_last_def nrows_def tf_concat0_def numeral_2_eq_2)

text \<open>
  The mode variant's objective as the code writes it: once the policy entropy \<open>h\<close>, the
  rollout, the expected costs (running costs \<open>cs\<close>, terminal cost \<open>T\<close>), the policy's full
  control sequence and the mode term \<open>m\<close> (on all states but the last) have been computed,
  \<^verbatim>\<open>elbo\<close> returns \<open>- m - T - sum cs + h\<close>. For either variant the training loss is the
  negation of what the variant's \<^verbatim>\<open>elbo\<close> returns, compiled or not, and raises what it
  raises.
\<close>

lemma mode_elbo_as_written:
  assumes "entropy (policy self) = Inr h"
    and "rollout_policy_in_dynamics (policy self) (call (dynamics self)) start_state
           start_state_var = Inr (state_means, state_vars)"
    and "expected_quadratic_costs (cost_fn self) (terminal_cost_fn self) state_means state_vars
           (policy self) = Inr (cs, T)"
    and "all_steps (policy self) = Inr (control_means, control_vars)"
    and "dynamics_mode_variational_expectation (dynamics self) (slice_init state_means)
           control_means (slice_init state_vars) control_vars = Inr m"
  shows "elbo ModeVariationalTrajectoryOptimiser expected_quadratic_costs self start_state
           start_state_var = Inr (- m - T - sum_list cs + h)"
  using assms
  by (simp add: elbo_def ModeVariationalTrajectoryOptimiser_elbo_def
      variational_module_global_def)

lemma training_loss_negates_elbo:
  "build_training_loss cls expected_quadratic_costs self start_state start_state_var compile ()
     = (case elbo cls expected_quadratic_costs self start_state start_state_var of
          Inl e \<Rightarrow> Inl e | Inr v \<Rightarrow> Inr (- v))"
  by (simp add: build_training_loss_def tf_function_def and_then_def Let_def)

text \<open>
  C1. The objective of the mode variant is not the one claimed. At the example optimiser
  (expected terminal cost 3, expected running cost 2, policy entropy 1, mode term 5) the
  claimed objective, minus the costs, minus the entropy, plus the mode term, is
  \<open>- 3 - 2 - 1 + 5 = - 1\<close>, and its negation, the claimed loss, is 1. The code's \<^verbatim>\<open>elbo\<close>
  returns \<open>- 5 - 3 - 2 + 1 = - 9\<close> and the training loss handed to the optimizer is 9: the
  mode term is subtracted from the objective, so minimising the loss lowers the expected
  log-probability of the desired mode, against the class's own description (trajectories
  that attempt to remain in a desired mode), and the entropy is added, where the plain
  variant's \<^verbatim>\<open>elbo\<close> subtracts it.
\<close>

theorem mode_elbo_is_not_spec_elbo:
  "elbo ModeVariationalTrajectoryOptimiser example_costs example_optimiser (Tensor2 2 [[7, 8]])
     None = Inr (- 9)
   \<and> build_training_loss ModeVariationalTrajectoryOptimiser example_costs example_optimiser
       (Tensor2 2 [[7, 8]]) None True () = Inr 9
   \<and> elbo_spec True 3 [2] 1 5 = - 1
   \<and> - elbo_spec True 3 [2] 1 5 = 1"
proof -
  have "elbo ModeVariationalTrajectoryOptimiser example_costs example_optimiser
          (Tensor2 2 [[7, 8]]) None = Inr (- 5 - 3 - sum_list [2] + 1)"
    by (rule mode_elbo_as_written)
      (simp_all add: example_rollout example_entropy example_all_steps example_mode_term
        example_costs_value)
  then show ?thesis
    by (simp add: training_loss_negates_elbo elbo_spec_def)
qed

text \<open>
  C5. Evaluating the plain optimiser's \<^verbatim>\<open>elbo\<close> never returns a value: the module binds
  \<^verbatim>\<open>expected_quadratic_costs\<close> and the method calls \<^verbatim>\<open>expected_costs\<close>. Once the two
  statements before that call have run (the policy entropy and the rollout), the call raises
  NameError, whatever the cost functions and the start state; an exception of those two
  statements is raised in its place. So the plain optimiser's training loss never returns
  a value either.
\<close>

theorem plain_elbo_raises_NameError:
  "(\<forall>v. VariationalTrajectoryOptimiser_elbo expected_quadratic_costs self start_state
           start_state_var \<noteq> Inr v)
   \<and> (\<forall>v. build_training_loss VariationalTrajectoryOptimiser expected_quadratic_costs self
           start_state start_state_var compile () \<noteq> Inr v)
   \<and> (\<forall>h r. entropy (policy self) = Inr h \<longrightarrow>
        rollout_policy_in_dynamics (policy self) (call (dynamics self)) start_state
          start_state_var = Inr r \<longrightarrow>
        VariationalTrajectoryOptimiser_elbo expected_quadratic_costs self start_state
          start_state_var = Inl (NameError ''expected_costs'')
        \<and> build_training_loss VariationalTrajectoryOptimiser expected_quadratic_costs self
            start_state start_state_var compile () = Inl (NameError ''expected_costs''))"
proof -
  have global: "variational_module_global expected_quadratic_costs ''expected_costs''
      = Inl (NameError ''expected_costs'')"
    by (simp add: variational_module_global_def)
  have no_value: "VariationalTrajectoryOptimiser_elbo expected_quadratic_costs self start_state
      start_state_var \<noteq> Inr v" for v
    unfolding VariationalTrajectoryOptimiser_elbo_def global
    by (auto simp: and_then_eq_Inr)
  have raised: "VariationalTrajectoryOptimiser_elbo expected_quadratic_costs self start_state
      start_state_var = Inl (NameError ''expected_costs'')"
    if "entropy (policy self) = Inr h"
      and "rollout_policy_in_dynamics (policy self) (call (dynamics self)) start_state
        start_state_var = Inr r" for h r
    unfolding VariationalTrajectoryOptimiser_elbo_def global
    using that by (cases r) simp
  have loss: "build_training_loss VariationalTrajectoryOptimiser expected_quadratic_costs self
      start_state start_state_var compile ()
      = and_then (VariationalTrajectoryOptimiser_elbo expected_quadratic_costs self start_state
          start_state_var) (\<lambda>v. Inr (- v))"
    by (simp add: build_training_loss_def tf_function_def elbo_def Let_def)
  show ?thesis
    using no_value raised by (simp add: loss and_then_eq_Inr)
qed

theorem plain_elbo_raises_NameError_witness:
  "VariationalTrajectoryOptimiser_elbo example_costs example_optimiser (Tensor2 2 [[7, 8]]) None
     = Inl (NameError ''expected_costs'')
   \<and> build_training_loss VariationalTrajectoryOptimiser example_costs example_optimiser
       (Tensor2 2 [[7, 8]]) None True () = Inl (NameError ''expected_costs'')"
proof -
  show ?thesis
    using plain_elbo_raises_NameError [of example_costs example_optimiser "Tensor2 2 [[7, 8]]"
        None True] example_entropy example_rollout
    by blast
qed

section \<open>Calling a trajectory\<close>

text \<open>
  C7, as stated, fails for a trajectory object: called at index 0, a trajectory of two
  controls returns both controls and no variance (or, with \<^verbatim>\<open>variance=True\<close>, both controls
  paired with \<^verbatim>\<open>None\<close>), not the pair for time step 0.
\<close>

theorem trajectory_call_at_index_returns_all_controls:
  "BaseTrajectory_call \<lparr>controls = Inr (Tensor2 1 [[1], [2]])\<rparr> (Some 0) False
     = Inr (Controls (Tensor2 1 [[1], [2]]))
   \<and> BaseTrajectory_call \<lparr>controls = Inr (Tensor2 1 [[1], [2]])\<rparr> (Some 0) True
     = Inr (ControlsAndVariance (Tensor2 1 [[1], [2]]) None)
   \<and> call_at_spec (Tensor2 1 [[1], [2]]) None 0 = ControlsAndVariance (Tensor2 1 [[1]]) None"
  by (simp add: BaseTrajectory_call_def call_at_spec_def slice_row_def)

text \<open>
  C7, amended. A call of a trajectory object does not look at the time step: with any index
  or none it returns the full control sequence, alone when \<^verbatim>\<open>variance\<close> is false (the
  default) and paired with \<^verbatim>\<open>None\<close> for the variance when it is true; it raises what the
  \<^verbatim>\<open>controls\<close> property raises.
\<close>

theorem trajectory_call_ignores_timestep:
  "BaseTrajectory_call self timestep variance = BaseTrajectory_call self None variance
   \<and> BaseTrajectory_call self timestep variance
       = (case controls self of
            Inl e \<Rightarrow> Inl e
          | Inr c \<Rightarrow> Inr (if variance then ControlsAndVariance c None else Controls c))"
  by (cases "controls self") (simp_all add: BaseTrajectory_call_def)

section \<open>Repeating the mode-consistency score\<close>












section \<open>The guard of the uncertain conditional\<close>






lemma raises_onlyI:
  "(\<And>e. r = Inl e \<Longrightarrow> library_raises L e) \<Longrightarrow> raises_only_what_library_raises L r"
  by (cases r) (simp_all add: raises_only_what_library_raises_def)










lemma undispatched_library_dim0: "op_dim0 undispatched_library x = Inr 1"
  by (simp add: undispatched_library_def scalar_library_def)


section \<open>The frame of an optimisation run\<close>

lemma assign_tensors_other:
  "i \<notin> set vars \<Longrightarrow> assign_tensors vars vals st i = st i"
  by (induction vars vals st rule: assign_tensors.induct) auto

lemma assign_tensors_trainable:
  "var_trainable (assign_tensors vars vals st i) = var_trainable (st i)"
  by (induction vars vals st rule: assign_tensors.induct) (simp_all add: fun_upd_def)

lemma Scipy_minimize_frame:
  assumes "Scipy_minimize solve closure vars m k cb d n st = (outcome, st')"
  shows "i \<notin> set vars \<Longrightarrow> st' i = st i"
    and "var_trainable (st' i) = var_trainable (st i)"
  using assms
  by (auto simp: Scipy_minimize_def assign_tensors_other assign_tensors_trainable
      split: prod.splits)

lemma handed_variables_are_policy_only:
  "set (trainable_variables policy_vars (set_trainable dynamics_vars False st))
     \<subseteq> set policy_vars - set dynamics_vars"
  by (auto simp: trainable_variables_def set_trainable_def)

lemma frozen_if_only_handed_assigned:
  assumes other: "\<And>i. i \<notin> set (trainable_variables policy_vars
                                  (set_trainable dynamics_vars False st)) \<Longrightarrow>
                      st' i = set_trainable dynamics_vars False st i"
    and flags: "\<And>i. var_trainable (st' i) = var_trainable (set_trainable dynamics_vars False st i)"
  shows "dynamics_frozen policy_vars dynamics_vars st st'"
  unfolding dynamics_frozen_def
proof (intro conjI ballI allI impI)
  fix i assume i: "i \<in> set dynamics_vars"
  then have "i \<notin> set (trainable_variables policy_vars (set_trainable dynamics_vars False st))"
    using handed_variables_are_policy_only [of policy_vars dynamics_vars st] by auto
  then have "st' i = set_trainable dynamics_vars False st i"
    by (rule other)
  then show "var_value (st' i) = var_value (st i)"
    by (simp add: set_trainable_def)
  show "\<not> var_trainable (st' i)"
    using i by (simp add: flags set_trainable_def)
next
  fix i assume changed: "var_value (st' i) \<noteq> var_value (st i)"
  have handed: "i \<in> set (trainable_variables policy_vars (set_trainable dynamics_vars False st))"
  proof (rule ccontr)
    assume "\<not> ?thesis"
    then have "st' i = set_trainable dynamics_vars False st i"
      by (rule other)
    then have "var_value (st' i) = var_value (st i)"
      by (simp add: set_trainable_def)
    with changed show False by simp
  qed
  then show "i \<in> set policy_vars" "i \<notin> set dynamics_vars"
    using handed_variables_are_policy_only [of policy_vars dynamics_vars st] by auto
  from handed show "var_trainable (st i)"
    by (auto simp: trainable_variables_def set_trainable_def split: if_splits)
qed

lemma frozen_before_minimize:
  "dynamics_frozen policy_vars dynamics_vars st (set_trainable dynamics_vars False st)"
  by (rule frozen_if_only_handed_assigned) simp_all

lemma frozen_after_minimize:
  assumes "Scipy_minimize solve closure
             (trainable_variables policy_vars (set_trainable dynamics_vars False st))
             m k cb d n (set_trainable dynamics_vars False st) = (outcome, st')"
  shows "dynamics_frozen policy_vars dynamics_vars st st'"
  by (rule frozen_if_only_handed_assigned) (simp_all add: Scipy_minimize_frame [OF assms])

lemma variational_optimise_frame:
  "dynamics_frozen (policy_variables self) (dynamics_variables self) st
     (snd (VariationalTrajectoryOptimiser_optimise cls eqc self start_state spec constraints st))"
  unfolding VariationalTrajectoryOptimiser_optimise_def Let_def
  by (auto simp: frozen_before_minimize split: sum.splits prod.splits
      intro: frozen_after_minimize)

lemma explorative_build_keeps_variables:
  "Explorative_build_training_loss self start_state v compile = (loss, self1) \<Longrightarrow>
     exp_policy_variables self1 = exp_policy_variables self
     \<and> exp_dynamics_variables self1 = exp_dynamics_variables self"
  by (auto simp: Explorative_build_training_loss_def Let_def)

lemma explorative_optimise_frame:
  "dynamics_frozen (exp_policy_variables self) (exp_dynamics_variables self) st
     (snd (snd (ExplorativeTrajectoryOptimiser_optimise self start_state spec constraints st)))"
  unfolding ExplorativeTrajectoryOptimiser_optimise_def Let_def
  by (auto simp: frozen_before_minimize and_then_eq_Inr split: sum.splits prod.splits option.splits
      dest!: explorative_build_keeps_variables intro: frozen_after_minimize)


text \<open>
  C8. A call of \<^verbatim>\<open>optimise\<close>, of the variational optimiser (either variant) and of the
  explorative optimiser, marks the variables of the dynamics model non-trainable first and
  hands the external optimizer the policy's trainable variables as they are then, so none
  of the dynamics model's: whatever the optimizer does and however the call ends, every
  variable of the dynamics model has the value it had before the call and is non-trainable
  after it, and a variable whose value changed is a trainable variable of the policy that
  the dynamics model does not hold.
\<close>

theorem optimise_leaves_dynamics_unchanged:
  "dynamics_frozen (policy_variables self) (dynamics_variables self) st
     (snd (VariationalTrajectoryOptimiser_optimise cls expected_quadratic_costs self start_state
             spec constraints st))
   \<and> dynamics_frozen (exp_policy_variables self') (exp_dynamics_variables self') st'
     (snd (snd (ExplorativeTrajectoryOptimiser_optimise self' start_state' spec' constraints'
                  st')))"
  by (intro conjI variational_optimise_frame explorative_optimise_frame)

theorem optimise_leaves_dynamics_unchanged_witness:
  "dynamics_frozen [0, 2] [1, 2] example_store
     (snd (VariationalTrajectoryOptimiser_optimise ModeVariationalTrajectoryOptimiser
             example_costs example_variational_instance (Tensor2 2 [[7, 8]]) example_spec ()
             example_store))
   \<and> map (\<lambda>i. var_value
               (snd (VariationalTrajectoryOptimiser_optimise ModeVariationalTrajectoryOptimiser
                       example_costs example_variational_instance (Tensor2 2 [[7, 8]])
                       example_spec () example_store) i)) [0, 1, 2] = [11, 10, 10]
   \<and> dynamics_frozen [0, 2] [1, 2] example_store
     (snd (snd (ExplorativeTrajectoryOptimiser_optimise example_explorative_instance
                  (Tensor2 2 [[7, 8]]) example_spec () example_store)))
   \<and> map (\<lambda>i. var_value
               (snd (snd (ExplorativeTrajectoryOptimiser_optimise example_explorative_instance
                            (Tensor2 2 [[7, 8]]) example_spec () example_store)) i)) [0, 1, 2]
       = [11, 10, 10]"
proof -
  have vars: "policy_variables example_variational_instance = [0, 2]"
    "dynamics_variables example_variational_instance = [1, 2]"
    "exp_policy_variables example_explorative_instance = [0, 2]"
    "exp_dynamics_variables example_explorative_instance = [1, 2]"
    by (simp_all add: example_variational_instance_def example_explorative_instance_def)
  have frame: "dynamics_frozen [0, 2] [1, 2] example_store
       (snd (VariationalTrajectoryOptimiser_optimise ModeVariationalTrajectoryOptimiser
               example_costs example_variational_instance (Tensor2 2 [[7, 8]]) example_spec ()
               example_store))
     \<and> dynamics_frozen [0, 2] [1, 2] example_store
       (snd (snd (ExplorativeTrajectoryOptimiser_optimise example_explorative_instance
                    (Tensor2 2 [[7, 8]]) example_spec () example_store)))"
    using optimise_leaves_dynamics_unchanged [of example_variational_instance example_store
        ModeVariationalTrajectoryOptimiser example_costs "Tensor2 2 [[7, 8]]" example_spec "()"
        example_explorative_instance example_store "Tensor2 2 [[7, 8]]" example_spec "()"]
    unfolding vars .
  have variational: "map (\<lambda>i. var_value
               (snd (VariationalTrajectoryOptimiser_optimise ModeVariationalTrajectoryOptimiser
                       example_costs example_variational_instance (Tensor2 2 [[7, 8]])
                       example_spec () example_store) i)) [0, 1, 2] = [11, 10, 10]"
    by (simp add: VariationalTrajectoryOptimiser_optimise_def example_variational_instance_def
        example_spec_def getattr_def choose_callback_def Scipy_minimize_def example_solver_def
        trainable_variables_def set_trainable_def example_store_def Let_def example_all_steps)
  have explorative: "map (\<lambda>i. var_value
               (snd (snd (ExplorativeTrajectoryOptimiser_optimise example_explorative_instance
                            (Tensor2 2 [[7, 8]]) example_spec () example_store)) i)) [0, 1, 2]
       = [11, 10, 10]"
    by (simp add: ExplorativeTrajectoryOptimiser_optimise_def example_explorative_instance_def
        example_spec_def getattr_def choose_callback_def Scipy_minimize_def example_solver_def
        trainable_variables_def set_trainable_def example_store_def Let_def
        Explorative_build_training_loss_def)
  show ?thesis
    using frame variational explorative by simp
qed

section \<open>Shape validation in the covariance conditional\<close>

lemma leading_perm_valid:
  "2 \<le> K \<Longrightarrow> length (leading_perm K) = K \<and> set (leading_perm K) = {0..<K}"
  by (auto simp: leading_perm_def)

lemma leading_perm_invalid:
  "K < 2 \<Longrightarrow> length (leading_perm K) \<noteq> K"
  by (auto simp: leading_perm_def)

lemma tf_transpose_leading_Inr:
  assumes "tf_transpose s (leading_perm (length s)) = Inr t"
  shows "2 \<le> length s" and "length t = length s"
    and "t ! (length t - 2) = hd s" and "last t = last s"
proof -
  show len: "2 \<le> length s"
    using assms leading_perm_invalid [of "length s"]
    by (cases "2 \<le> length s") (auto simp: tf_transpose_def split: if_splits)
  have t: "t = map (\<lambda>p. s ! p) (leading_perm (length s))"
    using assms by (auto simp: tf_transpose_def split: if_splits)
  show lt: "length t = length s"
    using len by (simp add: t leading_perm_valid)
  have "t ! (length s - 2) = s ! 0"
    using len by (simp add: t leading_perm_def nth_append numeral_2_eq_2)
  then show "t ! (length t - 2) = hd s"
    using len lt by (cases s) simp_all
  have "last t = s ! (length s - 1)"
    using len by (simp add: t leading_perm_def)
  then show "last t = last s"
    using len by (cases s rule: rev_cases) simp_all
qed

lemma two_last:
  assumes "2 \<le> length s"
  shows "\<exists>l a b. s = l @ [a, b]"
proof (cases s rule: rev_cases)
  case Nil
  with assms show ?thesis by simp
next
  case (snoc ys b)
  show ?thesis
  proof (cases ys rule: rev_cases)
    case Nil
    with snoc assms show ?thesis by simp
  next
    case (snoc l a)
    with \<open>s = ys @ [b]\<close> show ?thesis by simp
  qed
qed

lemma assert_ellipsis2:
  "assert_shapes_from env ((s, (True, [x, y])) # rest) = Inr () \<longleftrightarrow>
     2 \<le> length s \<and>
     (\<exists>env'. bind_sizes env [(x, s ! (length s - 2)), (y, last s)] = Some env'
        \<and> assert_shapes_from env' rest = Inr ())"
proof (cases "2 \<le> length s")
  case True
  then obtain l a b where s: "s = l @ [a, b]"
    using two_last by blast
  show ?thesis
    unfolding s by (auto split: option.splits simp: nth_append)
next
  case False
  then show ?thesis by simp
qed


lemma assert_exact2:
  "assert_shapes_from env ((s, (False, [x, y])) # rest) = Inr () \<longleftrightarrow>
     length s = 2 \<and>
     (\<exists>env'. bind_sizes env [(x, s ! 0), (y, s ! 1)] = Some env'
        \<and> assert_shapes_from env' rest = Inr ())"
proof (cases "length s = 2")
  case True
  then obtain a b where s: "s = [a, b]"
    by (auto simp: length_Suc_conv numeral_2_eq_2)
  show ?thesis
    unfolding s by (auto split: option.splits)
next
  case False
  then show ?thesis by simp
qed

lemma assert_exact3:
  "assert_shapes_from env ((s, (False, [x, y, z])) # rest) = Inr () \<longleftrightarrow>
     length s = 3 \<and>
     (\<exists>env'. bind_sizes env [(x, s ! 0), (y, s ! 1), (z, s ! 2)] = Some env'
        \<and> assert_shapes_from env' rest = Inr ())"
proof (cases "length s = 3")
  case True
  then obtain a b c where s: "s = [a, b, c]"
    by (auto simp: length_Suc_conv numeral_3_eq_3)
  show ?thesis
    unfolding s by (auto split: option.splits)
next
  case False
  then show ?thesis by simp
qed

lemma length_2_iff: "length s = 2 \<longleftrightarrow> (\<exists>a b. s = [a, b])"
  by (auto simp: length_Suc_conv numeral_2_eq_2)

lemma length_3_iff: "length s = 3 \<longleftrightarrow> (\<exists>a b c. s = [a, b, c])"
  by (auto simp: length_Suc_conv numeral_3_eq_3)

lemma assert_shapes_of_source:
  "assert_shapes
     ([(t1, (True, [''M'', ''N1''])), (t2, (True, [''M'', ''N2''])), (Lm, (False, [''M'', ''M''])),
       (K12, (True, [''N1'', ''N2''])), (f, (False, [''M'', ''R'']))]
      @ (case q_sqrt of
           None \<Rightarrow> []
         | Some q \<Rightarrow>
             [(q, (False, if length q = 2 then [''M'', ''R''] else [''R'', ''M'', ''M'']))]))
     = Inr () \<longleftrightarrow>
   2 \<le> length t1 \<and> 2 \<le> length t2 \<and> 2 \<le> length K12 \<and> length f = 2
   \<and> t2 ! (length t2 - 2) = t1 ! (length t1 - 2)
   \<and> Lm = [t1 ! (length t1 - 2), t1 ! (length t1 - 2)]
   \<and> K12 ! (length K12 - 2) = last t1 \<and> last K12 = last t2
   \<and> f ! 0 = t1 ! (length t1 - 2)
   \<and> (case q_sqrt of
         None \<Rightarrow> True
       | Some q \<Rightarrow> q = [f ! 0, f ! 1] \<or> q = [f ! 1, f ! 0, f ! 0])"
  (is "?checked \<longleftrightarrow> ?agree")
proof (cases "length Lm = 2 \<and> length f = 2")
  case False
  have "\<not> ?checked"
    using False unfolding assert_shapes_def
    by (auto simp: assert_ellipsis2 assert_exact2 simp del: assert_shapes_from.simps(2))
  moreover have "\<not> ?agree"
  proof
    assume ?agree
    then have "Lm = [t1 ! (length t1 - 2), t1 ! (length t1 - 2)]" and "length f = 2"
      by simp_all
    then have "length Lm = 2 \<and> length f = 2"
      by (metis length_2_iff)
    with False show False by simp
  qed
  ultimately show ?thesis by simp
next
  case True
  then obtain x y u v where Lm: "Lm = [x, y]" and f: "f = [u, v]"
    by (auto simp: length_2_iff)
  show ?thesis
  proof (cases q_sqrt)
    case None
    show ?thesis
      unfolding assert_shapes_def None Lm f
      by (auto simp: assert_ellipsis2 assert_exact2 simp del: assert_shapes_from.simps(2))
  next
    case (Some q)
    consider a b where "q = [a, b]" | a b c where "q = [a, b, c]"
      | "length q \<noteq> 2" "length q \<noteq> 3"
      by (metis length_2_iff length_3_iff)
    then show ?thesis
    proof cases
      case 1
      show ?thesis
        unfolding assert_shapes_def Some Lm f 1
        by (auto simp: assert_ellipsis2 assert_exact2 simp del: assert_shapes_from.simps(2))
    next
      case 2
      show ?thesis
        unfolding assert_shapes_def Some Lm f 2
        by (auto simp: assert_ellipsis2 assert_exact2 assert_exact3
            simp del: assert_shapes_from.simps(2))
    next
      case 3
      then show ?thesis
        unfolding assert_shapes_def Some Lm f
        by (auto simp: assert_ellipsis2 assert_exact2 assert_exact3
            simp del: assert_shapes_from.simps(2))
    qed
  qed
qed


lemma drop_last_two:
  "2 \<le> length s \<Longrightarrow> drop (length s - 2) s = [s ! (length s - 2), last s]"
  using two_last [of s] by (auto simp: nth_append)

lemma returned_shapes_passed_the_check:
  assumes "base_covariance_conditional Km1 Km2 Lm K12 f q_sqrt white = Inr out"
  shows "\<exists>t1 t2. tf_transpose Km1 (leading_perm (length Km1)) = Inr t1
           \<and> tf_transpose Km2 (leading_perm (length Km2)) = Inr t2
           \<and> assert_shapes
               ([(t1, (True, [''M'', ''N1''])), (t2, (True, [''M'', ''N2''])),
                 (Lm, (False, [''M'', ''M''])), (K12, (True, [''N1'', ''N2''])),
                 (f, (False, [''M'', ''R'']))]
                @ (case q_sqrt of
                     None \<Rightarrow> []
                   | Some q \<Rightarrow>
                       [(q, (False, if length q = 2 then [''M'', ''R'']
                                    else [''R'', ''M'', ''M'']))])) = Inr ()"
  using assms unfolding base_covariance_conditional_def Let_def
  by (simp only: and_then_eq_Inr) (elim exE conjE, simp)

lemma returned_shapes_agree:
  assumes "base_covariance_conditional Km1 Km2 Lm K12 f q_sqrt white = Inr out"
  shows "trailing_dims_agree Km1 Km2 Lm K12 f q_sqrt"
proof -
  from returned_shapes_passed_the_check [OF assms] obtain t1 t2 where
    t1: "tf_transpose Km1 (leading_perm (length Km1)) = Inr t1" and
    t2: "tf_transpose Km2 (leading_perm (length Km2)) = Inr t2" and
    checked: "assert_shapes
               ([(t1, (True, [''M'', ''N1''])), (t2, (True, [''M'', ''N2''])),
                 (Lm, (False, [''M'', ''M''])), (K12, (True, [''N1'', ''N2''])),
                 (f, (False, [''M'', ''R'']))]
                @ (case q_sqrt of
                     None \<Rightarrow> []
                   | Some q \<Rightarrow>
                       [(q, (False, if length q = 2 then [''M'', ''R'']
                                    else [''R'', ''M'', ''M'']))])) = Inr ()"
    by blast
  note a = tf_transpose_leading_Inr [OF t1] and b = tf_transpose_leading_Inr [OF t2]
  note c = checked [unfolded assert_shapes_of_source]
  have "drop (length K12 - 2) K12 = [last Km1, last Km2]"
    using c a(4) b(4) by (simp add: drop_last_two)
  then show ?thesis
    unfolding trailing_dims_agree_def Let_def
    using c a b by simp
qed

lemma broadcast_reversed_prefix: "broadcast_reversed xs (xs @ ys) = Some (xs @ ys)"
  by (induction xs) auto

lemma broadcast_reversed_one:
  "broadcast_reversed (xs @ 1 # ys) (xs @ r # ys) = Some (xs @ r # ys)"
  by (induction xs) (auto simp: broadcast_reversed_prefix [of _ "[]", simplified])

lemma broadcast_shapes_same: "broadcast_shapes a a = Inr a"
  using broadcast_reversed_prefix [of "rev a" "[]"] by (simp add: broadcast_shapes_def)

lemma broadcast_shapes_suffix: "broadcast_shapes b (a @ b) = Inr (a @ b)"
  using broadcast_reversed_prefix [of "rev b" "rev a"] by (simp add: broadcast_shapes_def)

lemma broadcast_shapes_one: "broadcast_shapes (a @ 1 # b) (a @ r # b) = Inr (a @ r # b)"
proof -
  have "broadcast_reversed (rev (a @ 1 # b)) (rev (a @ r # b)) = Some (rev (a @ r # b))"
    using broadcast_reversed_one [of "rev b" "rev a" r] by simp
  then show ?thesis
    by (simp only: broadcast_shapes_def option.case rev_rev_ident)
qed

lemma tf_broadcast_to_suffix: "tf_broadcast_to b (a @ b) = Inr (a @ b)"
  by (simp add: tf_broadcast_to_def broadcast_shapes_suffix)

lemma tf_broadcast_to_one: "tf_broadcast_to (a @ 1 # b) (a @ r # b) = Inr (a @ r # b)"
  unfolding tf_broadcast_to_def broadcast_shapes_one by simp

lemma batch_of_matrices_append: "batch_of_matrices (ld @ [x, y]) = Inr (ld, x, y)"
  by (simp add: batch_of_matrices_def nth_append)

lemma tf_matmul_transpose_a_batch:
  "tf_matmul_transpose_a (ld @ [m, a]) (ld @ [m, b]) = Inr (ld @ [a, b])"
  by (simp add: tf_matmul_transpose_a_def batch_of_matrices_append broadcast_shapes_same)

lemma tf_triangular_solve_batch:
  "tf_triangular_solve (ld @ [m, m]) (ld @ [m, n]) = Inr (ld @ [m, n])"
  by (simp add: tf_triangular_solve_def batch_of_matrices_append broadcast_shapes_same)

lemma tf_expand_dims_before_matrix:
  "tf_expand_dims (ld @ [a, b]) (- 3) = Inr (ld @ [1, a, b])"
  by (simp add: tf_expand_dims_def Let_def)

lemma tf_transpose_moves_first_axis:
  "tf_transpose (m # ld @ [n]) (leading_perm (length (m # ld @ [n]))) = Inr (ld @ [m, n])"
proof -
  have "[1..<Suc (length ld)] = map Suc [0..<length ld]"
    by (simp only: map_Suc_upt One_nat_def)
  then have "map (\<lambda>p. (m # ld @ [n]) ! p) [1..<Suc (length ld)]
      = map (\<lambda>p. (ld @ [n]) ! p) [0..<length ld]"
    by (simp only: map_map o_def nth_Cons_Suc)
  also have "\<dots> = map (\<lambda>p. ld ! p) [0..<length ld]"
    by (rule map_cong) (simp_all add: nth_append)
  also have "\<dots> = ld"
    by (rule map_nth)
  finally have "map (\<lambda>p. (m # ld @ [n]) ! p) [1..<Suc (length ld)] = ld" .
  then have "map (\<lambda>p. (m # ld @ [n]) ! p) (leading_perm (length (m # ld @ [n]))) = ld @ [m, n]"
    by (simp add: leading_perm_def)
  moreover have "length (leading_perm (length (m # ld @ [n]))) = length (m # ld @ [n])
      \<and> set (leading_perm (length (m # ld @ [n]))) = {0..<length (m # ld @ [n])}"
    by (rule leading_perm_valid) simp
  ultimately show ?thesis
    by (simp add: tf_transpose_def)
qed


lemma tf_matmul_transpose_a_batch3:
  "tf_matmul_transpose_a (ld @ [r, m, a]) (ld @ [r, m, b]) = Inr (ld @ [r, a, b])"
  using tf_matmul_transpose_a_batch [where ld = "ld @ [r]" and m = m and a = a and b = b]
  by simp

lemma agreeing_shapes_pass_the_check:
  assumes "q_sqrt = None \<or> q_sqrt = Some [R, M, M] \<or> q_sqrt = Some [M, R]"
  shows "assert_shapes
     ([(ld @ [M, N1], (True, [''M'', ''N1''])), (ld @ [M, N2], (True, [''M'', ''N2''])),
       ([M, M], (False, [''M'', ''M''])), (ld @ [N1, N2], (True, [''N1'', ''N2''])),
       ([M, R], (False, [''M'', ''R'']))]
      @ (case q_sqrt of
           None \<Rightarrow> []
         | Some q \<Rightarrow>
             [(q, (False, if length q = 2 then [''M'', ''R''] else [''R'', ''M'', ''M'']))]))
     = Inr ()"
  unfolding assert_shapes_of_source using assms by (auto simp: nth_append)

lemma agreeing_shapes_return:
  assumes "q_sqrt = None \<or> q_sqrt = Some [R, M, M] \<or> (q_sqrt = Some [M, R] \<and> ld = [])"
  shows "base_covariance_conditional (M # ld @ [N1]) (M # ld @ [N2]) [M, M] (ld @ [N1, N2])
           [M, R] q_sqrt white = Inr (ld @ [R, N1, N2])"
proof -
  note check = agreeing_shapes_pass_the_check [where q_sqrt = q_sqrt and R = R and M = M
      and ld = ld and ?N1.0 = N1 and ?N2.0 = N2]
  note ops = dim_from_end_def tf_transpose_moves_first_axis [simplified]
    tf_broadcast_to_suffix [where b = "[M, M]" and a = ld, simplified]
    tf_triangular_solve_batch tf_matmul_transpose_a_batch broadcast_shapes_same
    tf_expand_dims_before_matrix [unfolded One_nat_def]
    tf_broadcast_to_one [where a = ld and r = R and b = "[N1, N2]", unfolded One_nat_def]
  from assms consider "q_sqrt = None" | "q_sqrt = Some [R, M, M]"
    | "q_sqrt = Some [M, R]" "ld = []"
    by blast
  then show ?thesis
  proof cases
    case 1
    with check show ?thesis
      unfolding base_covariance_conditional_def Let_def
      by (simp add: ops)
  next
    case 2
    with check show ?thesis
      unfolding base_covariance_conditional_def Let_def
      by (simp add: ops tf_band_part_def
          tf_broadcast_to_suffix [where b = "[R, M, M]" and a = ld, simplified]
          tf_broadcast_to_one [where a = ld and r = R and b = "[M, N1]", unfolded One_nat_def]
          tf_broadcast_to_one [where a = ld and r = R and b = "[M, N2]", unfolded One_nat_def]
          tf_matmul_transpose_a_batch3)
  next
    case 3
    have expand: "tf_expand_dims [R, M] 2 = Inr [R, M, Suc 0]"
      by (simp add: tf_expand_dims_def)
    have scaled: "broadcast_shapes [M, n] [R, M, Suc 0] = Inr [R, M, n]" for n
      by (simp add: broadcast_shapes_def)
    note flat = dim_from_end_def
      tf_transpose_moves_first_axis [where ld = "[]", simplified]
      tf_broadcast_to_suffix [where b = "[M, M]" and a = "[]", simplified]
      tf_triangular_solve_batch [where ld = "[]", simplified]
      tf_matmul_transpose_a_batch [where ld = "[]", simplified]
      tf_matmul_transpose_a_batch3 [where ld = "[]", simplified]
      broadcast_shapes_same
      tf_expand_dims_before_matrix [where ld = "[]", simplified]
      tf_broadcast_to_one [where a = "[]" and r = R and b = "[N1, N2]", simplified]
    from check 3 show ?thesis
      unfolding base_covariance_conditional_def Let_def
      by (simp add: flat expand scaled)
  qed
qed

lemma raises_only_Inr: "raises_only_shape_errors (Inr x)"
  by (simp add: raises_only_shape_errors_def)

lemma raises_only_and_then:
  "raises_only_shape_errors m \<Longrightarrow> (\<And>x. raises_only_shape_errors (f x)) \<Longrightarrow>
     raises_only_shape_errors (and_then m f)"
  by (cases m) (simp_all add: raises_only_shape_errors_def)

lemma raises_only_if:
  "(c \<Longrightarrow> raises_only_shape_errors a) \<Longrightarrow> (\<not> c \<Longrightarrow> raises_only_shape_errors b) \<Longrightarrow>
     raises_only_shape_errors (if c then a else b)"
  by simp

lemma raises_only_case_option:
  "(opt = None \<Longrightarrow> raises_only_shape_errors a) \<Longrightarrow>
   (\<And>v. opt = Some v \<Longrightarrow> raises_only_shape_errors (g v)) \<Longrightarrow>
     raises_only_shape_errors (case opt of None \<Rightarrow> a | Some v \<Rightarrow> g v)"
  by (cases opt) simp_all

lemma raises_only_case_prod:
  "(\<And>a b. raises_only_shape_errors (g a b)) \<Longrightarrow> raises_only_shape_errors (case_prod g p)"
  by (cases p) simp

lemma raises_only_shape_error: "is_shape_error e \<Longrightarrow> raises_only_shape_errors (Inl e)"
  by (simp add: raises_only_shape_errors_def)

lemma raises_only_operations:
  "raises_only_shape_errors (dim_from_end s k)"
  "raises_only_shape_errors (tf_transpose s perm)"
  "raises_only_shape_errors (assert_shapes_from env constraints)"
  "raises_only_shape_errors (broadcast_shapes a b)"
  "raises_only_shape_errors (tf_broadcast_to a b)"
  "raises_only_shape_errors (batch_of_matrices s)"
  "raises_only_shape_errors (tf_expand_dims s axis)"
  "raises_only_shape_errors (tf_band_part s)"
proof -
  show "raises_only_shape_errors (assert_shapes_from env constraints)"
    by (induction env constraints rule: assert_shapes_from.induct)
      (auto simp: raises_only_shape_errors_def is_shape_error_def split: option.splits)
qed (auto simp: raises_only_shape_errors_def is_shape_error_def dim_from_end_def tf_transpose_def
    broadcast_shapes_def tf_broadcast_to_def batch_of_matrices_def tf_expand_dims_def Let_def
    tf_band_part_def split: option.splits)

lemma raises_only_matrix_operations:
  "raises_only_shape_errors (tf_matmul_transpose_a a b)"
  "raises_only_shape_errors (tf_triangular_solve a b)"
  unfolding tf_matmul_transpose_a_def tf_triangular_solve_def
  by (intro raises_only_and_then raises_only_case_prod raises_only_if raises_only_Inr
      raises_only_operations raises_only_shape_error; simp add: is_shape_error_def)+

lemma covariance_conditional_raises_only_shape_errors:
  "raises_only_shape_errors (base_covariance_conditional Km1 Km2 Lm K12 f q_sqrt white)"
  unfolding base_covariance_conditional_def Let_def assert_shapes_def
  by (intro raises_only_and_then raises_only_case_prod raises_only_if raises_only_Inr
      raises_only_case_option raises_only_operations raises_only_matrix_operations
      raises_only_shape_error) (simp add: is_shape_error_def)


text \<open>
  What the function does as the claim says. Whenever the trailing dimensions of the
  arguments disagree (the inducing count \<open>M\<close>, the query counts \<open>N1\<close> and \<open>N2\<close>, the output
  count \<open>R\<close> across \<^verbatim>\<open>Km1\<close>, \<^verbatim>\<open>Km2\<close>, \<^verbatim>\<open>Lm\<close>, \<^verbatim>\<open>K12\<close>, \<^verbatim>\<open>f\<close> and \<^verbatim>\<open>q_sqrt\<close>), the computation
  raises a shape error and returns nothing. When they agree and \<^verbatim>\<open>Km1\<close>, \<^verbatim>\<open>Km2\<close> and
  \<^verbatim>\<open>K12\<close> share the leading batch dimensions \<open>ld\<close>, the result has the shape
  \<open>ld @ [R, N1, N2]\<close> for \<^verbatim>\<open>q_sqrt\<close> absent or of shape \<open>[R, M, M]\<close>, and for \<^verbatim>\<open>q_sqrt\<close> of
  shape \<open>[M, R]\<close> when there is no batch dimension.
\<close>

lemma validation_and_supported_broadcasts:
  "(\<not> trailing_dims_agree Km1 Km2 Lm K12 f q_sqrt \<longrightarrow>
      (\<exists>e. base_covariance_conditional Km1 Km2 Lm K12 f q_sqrt white = Inl e
         \<and> is_shape_error e))
   \<and> (q = None \<or> q = Some [R, M, M] \<or> (q = Some [M, R] \<and> ld = []) \<longrightarrow>
        base_covariance_conditional (M # ld @ [N1]) (M # ld @ [N2]) [M, M] (ld @ [N1, N2])
          [M, R] q white' = Inr (ld @ [R, N1, N2]))"
proof (intro conjI impI)
  assume disagree: "\<not> trailing_dims_agree Km1 Km2 Lm K12 f q_sqrt"
  show "\<exists>e. base_covariance_conditional Km1 Km2 Lm K12 f q_sqrt white = Inl e
      \<and> is_shape_error e"
  proof (cases "base_covariance_conditional Km1 Km2 Lm K12 f q_sqrt white")
    case (Inl e)
    with covariance_conditional_raises_only_shape_errors [of Km1 Km2 Lm K12 f q_sqrt white]
    show ?thesis
      by (simp add: raises_only_shape_errors_def)
  next
    case (Inr out)
    then have "trailing_dims_agree Km1 Km2 Lm K12 f q_sqrt"
      by (rule returned_shapes_agree)
    with disagree show ?thesis by simp
  qed
next
  assume "q = None \<or> q = Some [R, M, M] \<or> (q = Some [M, R] \<and> ld = [])"
  then show "base_covariance_conditional (M # ld @ [N1]) (M # ld @ [N2]) [M, M]
      (ld @ [N1, N2]) [M, R] q white' = Inr (ld @ [R, N1, N2])"
    by (rule agreeing_shapes_return)
qed

text \<open>
  C10. With a \<^verbatim>\<open>q_sqrt\<close> of shape \<open>[M, R]\<close> the leading batch dimensions are not broadcast:
  that branch multiplies \<^verbatim>\<open>A1\<close>, of shape \<open>[..., M, N1]\<close>, by
  \<^verbatim>\<open>tf.expand_dims(tf.transpose(q_sqrt), 2)\<close>, of shape \<open>[R, M, 1]\<close>, so the last batch
  dimension meets \<open>R\<close>; the branch for \<^verbatim>\<open>q_sqrt\<close> of shape \<open>[R, M, M]\<close> broadcasts over
  \<^verbatim>\<open>leading_dims\<close> first. For \<open>M = 2\<close>, \<open>N1 = 4\<close>, \<open>N2 = 5\<close> and one batch dimension of size 3,
  all trailing dimensions agreeing: with \<open>R = 7\<close> the computation raises, where a
  \<^verbatim>\<open>q_sqrt\<close> of shape \<open>[7, 2, 2]\<close> gives the shape \<open>[3, 7, 4, 5]\<close>; with \<open>R = 1\<close> it raises
  nothing and returns the shape \<open>[3, 3, 4, 5]\<close>, the batch dimension in the place of \<open>R\<close>,
  where a \<^verbatim>\<open>q_sqrt\<close> of shape \<open>[1, 2, 2]\<close> gives \<open>[3, 1, 4, 5]\<close>.
\<close>

theorem diagonal_q_sqrt_does_not_broadcast_batch:
  "trailing_dims_agree [2, 3, 4] [2, 3, 5] [2, 2] [3, 4, 5] [2, 7] (Some [2, 7])
   \<and> base_covariance_conditional [2, 3, 4] [2, 3, 5] [2, 2] [3, 4, 5] [2, 7] (Some [2, 7]) False
       = Inl (InvalidArgumentError ''Incompatible shapes'')
   \<and> base_covariance_conditional [2, 3, 4] [2, 3, 5] [2, 2] [3, 4, 5] [2, 7] (Some [7, 2, 2]) False
       = Inr [3, 7, 4, 5]
   \<and> trailing_dims_agree [2, 3, 4] [2, 3, 5] [2, 2] [3, 4, 5] [2, 1] (Some [2, 1])
   \<and> base_covariance_conditional [2, 3, 4] [2, 3, 5] [2, 2] [3, 4, 5] [2, 1] (Some [2, 1]) False
       = Inr [3, 3, 4, 5]
   \<and> base_covariance_conditional [2, 3, 4] [2, 3, 5] [2, 2] [3, 4, 5] [2, 1] (Some [1, 2, 2]) False
       = Inr [3, 1, 4, 5]"
proof -
  have agree: "trailing_dims_agree [2, 3, 4] [2, 3, 5] [2, 2] [3, 4, 5] [2, 7] (Some [2, 7])"
    by (simp add: trailing_dims_agree_def)
  have diagonal: "base_covariance_conditional [2, 3, 4] [2, 3, 5] [2, 2] [3, 4, 5] [2, 7]
      (Some [2, 7]) False = Inl (InvalidArgumentError ''Incompatible shapes'')"
    by code_simp
  have full: "base_covariance_conditional [2, 3, 4] [2, 3, 5] [2, 2] [3, 4, 5] [2, 7]
      (Some [7, 2, 2]) False = Inr [3, 7, 4, 5]"
    by code_simp
  have agree_one:
    "trailing_dims_agree [2, 3, 4] [2, 3, 5] [2, 2] [3, 4, 5] [2, 1] (Some [2, 1])"
    by (simp add: trailing_dims_agree_def)
  have diagonal_one: "base_covariance_conditional [2, 3, 4] [2, 3, 5] [2, 2] [3, 4, 5] [2, 1]
      (Some [2, 1]) False = Inr [3, 3, 4, 5]"
    by code_simp
  have full_one: "base_covariance_conditional [2, 3, 4] [2, 3, 5] [2, 2] [3, 4, 5] [2, 1]
      (Some [1, 2, 2]) False = Inr [3, 1, 4, 5]"
    by code_simp
  show ?thesis
    using agree diagonal full agree_one diagonal_one full_one by (intro conjI)
qed

end
